theory Spec2Isabelle
  imports Complex_Main "HOL-Library.Word"
begin

unbundle bit_operations_syntax

section \<open>JavaScript and Java numbers\<close>

text \<open>
  Both tiers compute on IEEE-754 doubles. The model keeps the three special values
  and takes every finite double as the real number it denotes: finite arithmetic is
  exact (no rounding, no overflow to infinity) and the two zeros are one value, so a
  division by zero takes the sign of its numerator. Comparisons and arithmetic on
  \<open>NaN\<close> and the infinities follow IEEE-754. Reading a decimal literal does
  overflow, as it does in the source (see \<open>literalValue\<close>).
\<close>

datatype number = NaN | NegInf | PosInf | Fin real

fun lt :: "number \<Rightarrow> number \<Rightarrow> bool" where
  "lt (Fin a) (Fin b) = (a < b)"
| "lt NegInf (Fin b) = True"
| "lt NegInf PosInf = True"
| "lt (Fin a) PosInf = True"
| "lt _ _ = False"

fun le :: "number \<Rightarrow> number \<Rightarrow> bool" where
  "le (Fin a) (Fin b) = (a \<le> b)"
| "le NegInf (Fin b) = True"
| "le NegInf PosInf = True"
| "le (Fin a) PosInf = True"
| "le NegInf NegInf = True"
| "le PosInf PosInf = True"
| "le _ _ = False"

definition gt :: "number \<Rightarrow> number \<Rightarrow> bool" where
  "gt a b = lt b a"

definition ge :: "number \<Rightarrow> number \<Rightarrow> bool" where
  "ge a b = le b a"

text \<open>\<open>===\<close> in JavaScript and \<open>==\<close> on Java doubles: \<open>NaN\<close> equals nothing.\<close>

definition strictEq :: "number \<Rightarrow> number \<Rightarrow> bool" where
  "strictEq a b = (a \<noteq> NaN \<and> a = b)"

fun neg :: "number \<Rightarrow> number" where
  "neg NaN = NaN"
| "neg NegInf = PosInf"
| "neg PosInf = NegInf"
| "neg (Fin a) = Fin (- a)"

fun add :: "number \<Rightarrow> number \<Rightarrow> number" where
  "add (Fin a) (Fin b) = Fin (a + b)"
| "add NaN _ = NaN"
| "add _ NaN = NaN"
| "add PosInf NegInf = NaN"
| "add NegInf PosInf = NaN"
| "add PosInf _ = PosInf"
| "add NegInf _ = NegInf"
| "add _ PosInf = PosInf"
| "add _ NegInf = NegInf"

definition sub :: "number \<Rightarrow> number \<Rightarrow> number" where
  "sub a b = add a (neg b)"

text \<open>The infinity with the sign of a non-zero real.\<close>

definition signedInf :: "real \<Rightarrow> number" where
  "signedInf s = (if 0 < s then PosInf else NegInf)"

fun mul :: "number \<Rightarrow> number \<Rightarrow> number" where
  "mul (Fin a) (Fin b) = Fin (a * b)"
| "mul NaN _ = NaN"
| "mul _ NaN = NaN"
| "mul PosInf PosInf = PosInf"
| "mul PosInf NegInf = NegInf"
| "mul NegInf PosInf = NegInf"
| "mul NegInf NegInf = PosInf"
| "mul PosInf (Fin b) = (if b = 0 then NaN else signedInf b)"
| "mul NegInf (Fin b) = (if b = 0 then NaN else signedInf (- b))"
| "mul (Fin a) PosInf = (if a = 0 then NaN else signedInf a)"
| "mul (Fin a) NegInf = (if a = 0 then NaN else signedInf (- a))"

fun divide_number :: "number \<Rightarrow> number \<Rightarrow> number" where
  "divide_number (Fin a) (Fin b) =
     (if b = 0 then (if a = 0 then NaN else signedInf a) else Fin (a / b))"
| "divide_number NaN _ = NaN"
| "divide_number _ NaN = NaN"
| "divide_number (Fin a) PosInf = Fin 0"
| "divide_number (Fin a) NegInf = Fin 0"
| "divide_number PosInf (Fin b) = (if 0 \<le> b then PosInf else NegInf)"
| "divide_number NegInf (Fin b) = (if 0 \<le> b then NegInf else PosInf)"
| "divide_number _ _ = NaN"

section \<open>The Range Mapper of the scripting tier (AnimatedInterpolation.js)\<close>

text \<open>A thrown error: the failed \<open>invariant\<close> or the runtime \<open>TypeError\<close>.\<close>

datatype error =
    RangeTooShort        \<comment> \<open>\<open>name + ' must have at least 2 elements'\<close>\<close>
  | InfiniteRange        \<comment> \<open>\<open>name + 'cannot be ]-infinity;+infinity[ '\<close>\<close>
  | NotMonotonic         \<comment> \<open>\<open>'inputRange must be monotonically increasing '\<close>\<close>
  | LengthMismatch       \<comment> \<open>\<open>'inputRange (..) and outputRange (..) must have the same length'\<close>\<close>
  | InputNotANumber      \<comment> \<open>\<open>'Cannot interpolation an input which is not a number'\<close>\<close>
  | BadOutputRange       \<comment> \<open>\<open>'Bad output range'\<close>\<close>
  | InvalidPattern       \<comment> \<open>\<open>'invalid pattern ' + arr[0] + ' and ' + arr[i]\<close>\<close>
  | TypeError            \<comment> \<open>a property read on \<open>null\<close> or \<open>undefined\<close>\<close>
  | NoNativeTag          \<comment> \<open>\<open>'There must be a native tag for this value.'\<close>\<close>
  | UndefinedRead        \<comment> \<open>an array read past the end (see \<open>lookup\<close>)\<close>

text \<open>
  \<open>findRange\<close>: the \<open>for\<close> loop with its counter \<open>i\<close>; the bound
  \<open>inputRange.length - 1\<close> is \<open>-1\<close> on the empty array, hence the integers.
\<close>

function findRange_loop :: "nat \<Rightarrow> number \<Rightarrow> number list \<Rightarrow> nat" where
  "findRange_loop i input arr =
     (if int i < int (length arr) - 1 then
        (if ge (arr ! i) input then i else findRange_loop (i + 1) input arr)
      else i)"
  by pat_completeness auto
termination
  by (relation "measure (\<lambda>(i, input, arr). length arr - i)") auto

declare findRange_loop.simps [simp del]

definition findRange :: "number \<Rightarrow> number list \<Rightarrow> nat" where
  "findRange input arr = findRange_loop 1 input arr - 1"

text \<open>
  \<open>interpolate\<close>, in its two parts. The first is the block under \<open>// Extrapolate\<close>:
  it either returns (\<open>Return\<close>) or leaves the local \<open>result\<close> (\<open>Continue\<close>).
  An extrapolation type is the string the source compares with.
\<close>

datatype step = Return number | Continue number

definition extrapolateStep ::
  "number \<Rightarrow> number \<Rightarrow> number \<Rightarrow> string \<Rightarrow> string \<Rightarrow> step" where
  "extrapolateStep input inputMin inputMax extrapolateL extrapolateR =
     (let result = input in
      if lt result inputMin \<and> extrapolateL = ''identity'' then Return result
      else
        let result = (if lt result inputMin \<and> extrapolateL = ''clamp'' then inputMin else result)
        in if gt result inputMax \<and> extrapolateR = ''identity'' then Return result
           else Continue (if gt result inputMax \<and> extrapolateR = ''clamp'' then inputMax
                          else result))"

text \<open>
  The second part is the rest of the body: the two shortcuts, which test the
  parameter \<open>input\<close>, then \<open>// Input Range\<close>, \<open>// Easing\<close> and \<open>// Output Range\<close>
  on the local \<open>result\<close>.
\<close>

definition mapSegment ::
  "number \<Rightarrow> number \<Rightarrow> number \<Rightarrow> number \<Rightarrow> number \<Rightarrow> number \<Rightarrow> (number \<Rightarrow> number) \<Rightarrow> number" where
  "mapSegment input result inputMin inputMax outputMin outputMax easingFn =
     (if strictEq outputMin outputMax then outputMin
      else if strictEq inputMin inputMax then
        (if le input inputMin then outputMin else outputMax)
      else
        let r1 = (if strictEq inputMin NegInf then neg result
                  else if strictEq inputMax PosInf then sub result inputMin
                  else divide_number (sub result inputMin) (sub inputMax inputMin));
            r2 = easingFn r1
        in (if strictEq outputMin NegInf then neg r2
            else if strictEq outputMax PosInf then add r2 outputMin
            else add (mul r2 (sub outputMax outputMin)) outputMin))"

definition interpolate ::
  "number \<Rightarrow> number \<Rightarrow> number \<Rightarrow> number \<Rightarrow> number \<Rightarrow> (number \<Rightarrow> number) \<Rightarrow> string \<Rightarrow> string
     \<Rightarrow> number" where
  "interpolate input inputMin inputMax outputMin outputMax easingFn extrapolateL extrapolateR =
     (case extrapolateStep input inputMin inputMax extrapolateL extrapolateR of
        Return v \<Rightarrow> v
      | Continue result \<Rightarrow>
          mapSegment input result inputMin inputMax outputMin outputMax easingFn)"

text \<open>\<open>const linear = t => t\<close>, the easing of a configuration that has none.\<close>

definition linear_easing :: "number \<Rightarrow> number" where
  "linear_easing t = t"

subsection \<open>Configurations\<close>

text \<open>
  \<open>outputRange: Array<number> | Array<string> | Array<AnimatedNode>\<close>. The nodes are
  of a type \<open>'n\<close>; the current value of one is read through \<open>AnimatedNode.__getValue\<close>,
  a parameter \<open>getValue\<close> of the model.
\<close>

datatype 'n numericRange = NumberArray "number list" | NodeArray "'n list"

datatype 'n outputRangeType = Numeric "'n numericRange" | Strings "string list"

record 'n InterpolationConfigType =
  inputRange :: "number list"
  outputRange :: "'n outputRangeType"
  easing :: "(number \<Rightarrow> number) option"
  extrapolate :: "string option"
  extrapolateLeft :: "string option"
  extrapolateRight :: "string option"

text \<open>What a mapper is given and what it returns: a number or a string.\<close>

datatype jsValue = VNum number | VStr string

definition checkValidInputRange :: "number list \<Rightarrow> error option" where
  "checkValidInputRange arr =
     (if \<not> 2 \<le> length arr then Some RangeTooShort
      else if \<exists>i \<in> set [1 ..< length arr]. \<not> ge (arr ! i) (arr ! (i - 1)) then Some NotMonotonic
      else None)"

text \<open>
  \<open>checkInfiniteRange(name, arr: Array<any>)\<close>, once for an array of numbers and once
  for an output range, where a node is never \<open>=== -Infinity\<close>.
\<close>

definition checkInfiniteRange :: "number list \<Rightarrow> error option" where
  "checkInfiniteRange arr =
     (if \<not> 2 \<le> length arr then Some RangeTooShort
      else if \<not> (length arr \<noteq> 2 \<or> \<not> strictEq (arr ! 0) NegInf \<or> \<not> strictEq (arr ! 1) PosInf)
        then Some InfiniteRange
      else None)"

fun rangeLength :: "'n numericRange \<Rightarrow> nat" where
  "rangeLength (NumberArray xs) = length xs"
| "rangeLength (NodeArray ns) = length ns"

fun checkInfiniteOutputRange :: "'n numericRange \<Rightarrow> error option" where
  "checkInfiniteOutputRange (NumberArray xs) = checkInfiniteRange xs"
| "checkInfiniteOutputRange (NodeArray ns) =
     (if \<not> 2 \<le> length ns then Some RangeTooShort else None)"

text \<open>
  An array read: JavaScript yields \<open>undefined\<close> past the end and goes on. The model
  stops there with \<open>UndefinedRead\<close>, so that a read in range is part of what a
  theorem about a result says.
\<close>

definition lookup :: "'a list \<Rightarrow> nat \<Rightarrow> 'a option" where
  "lookup xs i = (if i < length xs then Some (xs ! i) else None)"

text \<open>
  \<open>outputRange[range]\<close> followed by
  \<open>outputStart instanceof AnimatedNode ? outputStart.__getValue() : outputStart\<close>.
\<close>

fun outputValueAt :: "('n \<Rightarrow> number) \<Rightarrow> 'n numericRange \<Rightarrow> nat \<Rightarrow> number option" where
  "outputValueAt getValue (NumberArray xs) i = lookup xs i"
| "outputValueAt getValue (NodeArray ns) i = map_option getValue (lookup ns i)"

text \<open>The closure \<open>input => ...\<close> that \<open>createInterpolation\<close> returns.\<close>

definition numericMapper ::
  "('n \<Rightarrow> number) \<Rightarrow> number list \<Rightarrow> 'n numericRange \<Rightarrow> (number \<Rightarrow> number) \<Rightarrow> string \<Rightarrow> string
     \<Rightarrow> jsValue \<Rightarrow> error + number" where
  "numericMapper getValue inRange outRange easingFn extrapolateL extrapolateR v =
     (case v of
        VStr s \<Rightarrow> Inl InputNotANumber
      | VNum input \<Rightarrow>
          (let range = findRange input inRange in
           case (outputValueAt getValue outRange range, outputValueAt getValue outRange (range + 1),
                 lookup inRange range, lookup inRange (range + 1)) of
             (Some outputStartValue, Some outputEndValue, Some inputMin, Some inputMax) \<Rightarrow>
               Inr (interpolate input inputMin inputMax outputStartValue outputEndValue
                      easingFn extrapolateL extrapolateR)
           | _ \<Rightarrow> Inl UndefinedRead))"

text \<open>
  \<open>extrapolateLeft\<close> and \<open>extrapolateRight\<close> as \<open>createInterpolation\<close> resolves them.
\<close>

definition resolveExtrapolate :: "string option \<Rightarrow> string option \<Rightarrow> string" where
  "resolveExtrapolate side both =
     (case side of Some e \<Rightarrow> e
      | None \<Rightarrow> (case both of Some e \<Rightarrow> e | None \<Rightarrow> ''extend''))"

text \<open>
  The body of \<open>createInterpolation\<close> below its first \<open>if\<close>, for an output range whose
  first entry is no string.
\<close>

definition createNumericInterpolation ::
  "('n \<Rightarrow> number) \<Rightarrow> ('n, 'x) InterpolationConfigType_scheme \<Rightarrow> 'n numericRange
     \<Rightarrow> error + (jsValue \<Rightarrow> error + number)" where
  "createNumericInterpolation getValue config outRange =
     (case checkInfiniteOutputRange outRange of Some e \<Rightarrow> Inl e | None \<Rightarrow>
      case checkInfiniteRange (inputRange config) of Some e \<Rightarrow> Inl e | None \<Rightarrow>
      case checkValidInputRange (inputRange config) of Some e \<Rightarrow> Inl e | None \<Rightarrow>
      if length (inputRange config) \<noteq> rangeLength outRange then Inl LengthMismatch
      else Inr (numericMapper getValue (inputRange config) outRange
                  (case easing config of Some f \<Rightarrow> f | None \<Rightarrow> linear_easing)
                  (resolveExtrapolate (extrapolateLeft config) (extrapolate config))
                  (resolveExtrapolate (extrapolateRight config) (extrapolate config))))"

section \<open>The Pattern Extractor (AnimatedInterpolation.js)\<close>

subsection \<open>\<open>stringShapeRegex = /[0-9\.-]+/g\<close>\<close>

definition isShapeChar :: "char \<Rightarrow> bool" where
  "isShapeChar c = (c \<in> set ''0123456789.-'')"

text \<open>
  A string cut at the matches of the regular expression: each match is a longest
  run of shape characters, everything else stays a character of its own.
\<close>

datatype piece = Literal char | Match string

function pieces :: "string \<Rightarrow> piece list" where
  "pieces [] = []"
| "pieces (c # cs) =
     (if isShapeChar c
      then Match (c # takeWhile isShapeChar cs) # pieces (dropWhile isShapeChar cs)
      else Literal c # pieces cs)"
  by pat_completeness auto
termination
  by (relation "measure length") (auto simp: length_dropWhile_le less_Suc_eq_le)

declare pieces.simps [simp del]

fun matchesOf :: "piece list \<Rightarrow> string list" where
  "matchesOf [] = []"
| "matchesOf (Literal c # ps) = matchesOf ps"
| "matchesOf (Match m # ps) = m # matchesOf ps"

text \<open>\<open>str.match(stringShapeRegex)\<close>: every match, or \<open>null\<close> when there is none.\<close>

definition matchShape :: "string \<Rightarrow> string list option" where
  "matchShape str = (let ms = matchesOf (pieces str) in if ms = [] then None else Some ms)"

text \<open>\<open>str.replace(stringShapeRegex, '')\<close>.\<close>

fun dropMatches :: "piece list \<Rightarrow> string" where
  "dropMatches [] = []"
| "dropMatches (Literal c # ps) = c # dropMatches ps"
| "dropMatches (Match m # ps) = dropMatches ps"

definition replaceShapeEmpty :: "string \<Rightarrow> string" where
  "replaceShapeEmpty str = dropMatches (pieces str)"

subsection \<open>Strings and numbers\<close>

definition isDigit :: "char \<Rightarrow> bool" where
  "isDigit c = (c \<in> set ''0123456789'')"

definition digitValue :: "char \<Rightarrow> nat" where
  "digitValue c = of_char c - 48"

definition natOfDigits :: "string \<Rightarrow> nat" where
  "natOfDigits ds = foldl (\<lambda>a c. 10 * a + digitValue c) 0 ds"

text \<open>
  The exponent of a decimal literal: \<open>e\<close> or \<open>E\<close>, a sign if any, and digits. Where
  no digit follows, the literal has no exponent and ends before the letter.
\<close>

definition exponentPart :: "string \<Rightarrow> int \<times> string" where
  "exponentPart s =
     (case s of
        [] \<Rightarrow> (0, s)
      | c # r \<Rightarrow>
          if c = CHR ''e'' \<or> c = CHR ''E'' then
            (let (sgn, u) = (case r of
                               [] \<Rightarrow> (1, r)
                             | d # r' \<Rightarrow> if d = CHR ''-'' then (- 1, r')
                                         else if d = CHR ''+'' then (1, r') else (1, r))
             in if takeWhile isDigit u = [] then (0, s)
                else (sgn * int (natOfDigits (takeWhile isDigit u)), dropWhile isDigit u))
          else (0, s))"

text \<open>
  The longest prefix that is an unsigned decimal literal (digits, a fraction, an
  exponent), with what follows it; \<open>None\<close> where there is no digit.
\<close>

definition unsignedDecimal :: "string \<Rightarrow> (real \<times> string) option" where
  "unsignedDecimal s =
     (let ip = takeWhile isDigit s;
          r1 = dropWhile isDigit s;
          (fp, r2) = (case r1 of
                        [] \<Rightarrow> ([], r1)
                      | c # r \<Rightarrow> if c = CHR ''.'' then (takeWhile isDigit r, dropWhile isDigit r)
                                 else ([], r1))
      in if ip = [] \<and> fp = [] then None
         else
           (let m = real (natOfDigits ip) + real (natOfDigits fp) / 10 ^ length fp;
                (ex, r3) = exponentPart r2
            in Some (if 0 \<le> ex then m * 10 ^ nat ex else m / 10 ^ nat (- ex), r3)))"

text \<open>The white space of ASCII: tab, line feed, vertical tab, form feed, return, space.\<close>

definition isWhiteSpace :: "char \<Rightarrow> bool" where
  "isWhiteSpace c = (of_char c \<in> {9, 10, 11, 12, 13, 32 :: nat})"

definition signPart :: "string \<Rightarrow> real \<times> string" where
  "signPart s =
     (case s of
        [] \<Rightarrow> (1, s)
      | c # r \<Rightarrow> if c = CHR ''-'' then (- 1, r) else if c = CHR ''+'' then (1, r) else (1, s))"

text \<open>
  The double that a decimal literal of magnitude \<open>v\<close> reads as: an infinity from
  \<open>2^1024 - 2^970\<close> on, which is halfway between the largest double and \<open>2^1024\<close>
  and rounds up; below that the model keeps the real number.
\<close>

definition literalOverflow :: real where
  "literalOverflow = 2 ^ 1024 - 2 ^ 970"

definition literalValue :: "real \<Rightarrow> real \<Rightarrow> number" where
  "literalValue s v =
     (if literalOverflow \<le> v then (if s < 0 then NegInf else PosInf) else Fin (s * v))"

text \<open>\<open>parseFloat\<close>: leading white space, a sign, then \<open>Infinity\<close> or a decimal prefix.\<close>

definition parseFloat :: "string \<Rightarrow> number" where
  "parseFloat str =
     (let (sgn, u) = signPart (dropWhile isWhiteSpace str)
      in if take 8 u = ''Infinity'' then (if sgn < 0 then NegInf else PosInf)
         else (case unsignedDecimal u of
                 None \<Rightarrow> NaN
               | Some (v, rest) \<Rightarrow> literalValue sgn v))"

text \<open>
  The unary \<open>+\<close> on a match of the regular expression, a non-empty string over
  \<open>0-9\<close>, \<open>.\<close> and \<open>-\<close>: the whole of it has to be a decimal literal.
\<close>

definition toNumber :: "string \<Rightarrow> number" where
  "toNumber str =
     (let (sgn, u) = signPart str
      in case unsignedDecimal u of
           None \<Rightarrow> NaN
         | Some (v, rest) \<Rightarrow> if rest = [] then literalValue sgn v else NaN)"

text \<open>
  \<open>String(x)\<close> and \<open>${x}\<close> for a number. The digits are those of the real number,
  in plain notation: that is what JavaScript prints for a double of magnitude
  between \<open>10^-6\<close> and \<open>10^21\<close> whose shortest decimal has at most
  \<open>fractionDigits\<close> places, as have the integers and the multiples of \<open>1 / 1000\<close>
  that the mappers print. A longer expansion is cut after that many places.
  \<open>digitChar\<close> is for a digit below ten.
\<close>

definition digitChar :: "nat \<Rightarrow> char" where
  "digitChar d = ''0123456789'' ! d"

function natToString :: "nat \<Rightarrow> string" where
  "natToString n = (if n < 10 then [digitChar n] else natToString (n div 10) @ [digitChar (n mod 10)])"
  by pat_completeness auto
termination
  by (relation "measure id") auto

declare natToString.simps [simp del]

text \<open>At most \<open>k\<close> digits of a fraction \<open>0 <= r < 1\<close>, up to the last one that is not zero.\<close>

function fractionToString :: "nat \<Rightarrow> real \<Rightarrow> string" where
  "fractionToString k r =
     (if k = 0 \<or> r = 0 then []
      else digitChar (nat \<lfloor>r * 10\<rfloor>)
             # fractionToString (k - 1) (r * 10 - of_int \<lfloor>r * 10\<rfloor>))"
  by pat_completeness auto
termination
  by (relation "measure fst") auto

declare fractionToString.simps [simp del]

definition fractionDigits :: nat where
  "fractionDigits = 20"

definition unsignedToString :: "real \<Rightarrow> string" where
  "unsignedToString x =
     natToString (nat \<lfloor>x\<rfloor>) @
     (if x = of_int \<lfloor>x\<rfloor> then []
      else CHR ''.'' # fractionToString fractionDigits (x - of_int \<lfloor>x\<rfloor>))"

fun numberToString :: "number \<Rightarrow> string" where
  "numberToString NaN = ''NaN''"
| "numberToString PosInf = ''Infinity''"
| "numberToString NegInf = ''-Infinity''"
| "numberToString (Fin x) =
     (if x < 0 then CHR ''-'' # unsignedToString (- x) else unsignedToString x)"

declare numberToString.simps [simp del]

text \<open>\<open>Math.round\<close>: the nearest integer, a half going up.\<close>

fun mathRound :: "number \<Rightarrow> number" where
  "mathRound (Fin x) = Fin (of_int \<lfloor>x + 1 / 2\<rfloor>)"
| "mathRound v = v"

subsection \<open>\<open>colorToRgba\<close>\<close>

text \<open>
  \<open>normalizeColor\<close> is a module outside this file, a parameter here: it returns the
  colour packed in 32 bits as \<open>0xRRGGBBAA\<close>, or \<open>null\<close>.
\<close>

definition colorToRgba :: "(string \<Rightarrow> 32 word option) \<Rightarrow> string \<Rightarrow> string" where
  "colorToRgba normalizeColor input =
     (case normalizeColor input of
        None \<Rightarrow> input
      | Some int32Color \<Rightarrow>
          (let r = drop_bit 24 (int32Color AND 0xff000000);
               g = drop_bit 16 (int32Color AND 0x00ff0000);
               b = drop_bit 8 (int32Color AND 0x0000ff00);
               a = divide_number (Fin (real (unat (int32Color AND 0x000000ff)))) (Fin 255)
           in ''rgba('' @ numberToString (Fin (real (unat r))) @ '', '' @
              numberToString (Fin (real (unat g))) @ '', '' @
              numberToString (Fin (real (unat b))) @ '', '' @
              numberToString a @ '')''))"

definition isRgbOrRgba :: "string \<Rightarrow> bool" where
  "isRgbOrRgba str = (take 3 str = ''rgb'')"

text \<open>\<open>checkPattern\<close>; the caller has checked that the array has two entries.\<close>

definition checkPattern :: "string list \<Rightarrow> error option" where
  "checkPattern arr =
     (let pattern = replaceShapeEmpty (arr ! 0)
      in if \<exists>i \<in> set [1 ..< length arr]. pattern \<noteq> replaceShapeEmpty (arr ! i)
         then Some InvalidPattern else None)"

subsection \<open>\<open>createInterpolationFromStringOutputRange\<close>\<close>

text \<open>
  \<open>value.match(stringShapeRegex).forEach((number, i) => outputRanges[i].push(+number))\<close>:
  the loop over the matches of one entry, \<open>i\<close> counting them. A match past the
  last column reads \<open>undefined.push\<close>, a \<open>TypeError\<close>.
\<close>

fun pushNumbers :: "number list list \<Rightarrow> nat \<Rightarrow> string list \<Rightarrow> error + number list list" where
  "pushNumbers outputRanges i [] = Inr outputRanges"
| "pushNumbers outputRanges i (m # ms) =
     (if i < length outputRanges
      then pushNumbers (outputRanges[i := outputRanges ! i @ [toNumber m]]) (i + 1) ms
      else Inl TypeError)"

text \<open>
  \<open>outputRange.forEach(value => ...)\<close>; an entry without a match reads
  \<open>null.forEach\<close>, a \<open>TypeError\<close>.
\<close>

fun collectOutputRanges :: "number list list \<Rightarrow> string list \<Rightarrow> error + number list list" where
  "collectOutputRanges outputRanges [] = Inr outputRanges"
| "collectOutputRanges outputRanges (v # vs) =
     (case matchShape v of
        None \<Rightarrow> Inl TypeError
      | Some ms \<Rightarrow>
          (case pushNumbers outputRanges 0 ms of
             Inl e \<Rightarrow> Inl e
           | Inr outputRanges' \<Rightarrow> collectOutputRanges outputRanges' vs))"

text \<open>\<open>Array.prototype.map\<close> with a callback that may throw.\<close>

fun mapResult :: "('a \<Rightarrow> 'e + 'b) \<Rightarrow> 'a list \<Rightarrow> 'e + 'b list" where
  "mapResult f [] = Inr []"
| "mapResult f (x # xs) =
     (case f x of
        Inl e \<Rightarrow> Inl e
      | Inr y \<Rightarrow> (case mapResult f xs of Inl e \<Rightarrow> Inl e | Inr ys \<Rightarrow> Inr (y # ys)))"

text \<open>
  \<open>str.replace(stringShapeRegex, callback)\<close>: the callback runs once for each match,
  from left to right; \<open>i\<close> is the number of calls before this one.
\<close>

fun replaceShapeWith :: "(nat \<Rightarrow> error + string) \<Rightarrow> nat \<Rightarrow> piece list \<Rightarrow> error + string" where
  "replaceShapeWith callback i [] = Inr []"
| "replaceShapeWith callback i (Literal c # ps) =
     (case replaceShapeWith callback i ps of Inl e \<Rightarrow> Inl e | Inr r \<Rightarrow> Inr (c # r))"
| "replaceShapeWith callback i (Match m # ps) =
     (case callback i of
        Inl e \<Rightarrow> Inl e
      | Inr s \<Rightarrow>
          (case replaceShapeWith callback (i + 1) ps of Inl e \<Rightarrow> Inl e | Inr r \<Rightarrow> Inr (s @ r)))"

text \<open>
  The callback of the returned closure. The source tests \<open>i < 4\<close> after \<open>i++\<close>.
\<close>

definition formatChannel ::
  "(jsValue \<Rightarrow> error + number) list \<Rightarrow> bool \<Rightarrow> jsValue \<Rightarrow> nat \<Rightarrow> error + string" where
  "formatChannel interpolations shouldRound input i =
     (case lookup interpolations i of
        None \<Rightarrow> Inl TypeError
      | Some interpolation \<Rightarrow>
          (case interpolation input of
             Inl e \<Rightarrow> Inl e
           | Inr val \<Rightarrow>
               (let rounded = (if shouldRound \<and> i + 1 < 4 then mathRound val
                               else divide_number (mathRound (mul val (Fin 1000))) (Fin 1000))
                in Inr (numberToString rounded))))"

definition stringMapper ::
  "string \<Rightarrow> (jsValue \<Rightarrow> error + number) list \<Rightarrow> bool \<Rightarrow> jsValue \<Rightarrow> error + string" where
  "stringMapper template interpolations shouldRound input =
     replaceShapeWith (formatChannel interpolations shouldRound input) 0 (pieces template)"

text \<open>
  Each column is handed to \<open>createInterpolation\<close> as \<open>{...config, outputRange:
  outputRanges[i]}\<close>; an array of numbers there takes the numeric path.
\<close>

definition createInterpolationFromStringOutputRange ::
  "(string \<Rightarrow> 32 word option) \<Rightarrow> ('n \<Rightarrow> number) \<Rightarrow> ('n, 'x) InterpolationConfigType_scheme
     \<Rightarrow> string list \<Rightarrow> error + (jsValue \<Rightarrow> error + string)" where
  "createInterpolationFromStringOutputRange normalizeColor getValue config strs =
     (if \<not> 2 \<le> length strs then Inl BadOutputRange
      else
        let outRange = map (colorToRgba normalizeColor) strs in
        case checkPattern outRange of Some e \<Rightarrow> Inl e | None \<Rightarrow>
        case matchShape (outRange ! 0) of None \<Rightarrow> Inl TypeError | Some ms0 \<Rightarrow>
        case collectOutputRanges (map (\<lambda>m. []) ms0) outRange of Inl e \<Rightarrow> Inl e
        | Inr outputRanges \<Rightarrow>
        case mapResult (\<lambda>column. createNumericInterpolation getValue config (NumberArray column))
               outputRanges of Inl e \<Rightarrow> Inl e
        | Inr interpolations \<Rightarrow>
            Inr (stringMapper (outRange ! 0) interpolations (isRgbOrRgba (outRange ! 0))))"

text \<open>
  \<open>createInterpolation\<close>. Its first test, \<open>typeof config.outputRange[0] === 'string'\<close>,
  fails on an empty array, which then takes the numeric path.
\<close>

definition createInterpolation ::
  "(string \<Rightarrow> 32 word option) \<Rightarrow> ('n \<Rightarrow> number) \<Rightarrow> ('n, 'x) InterpolationConfigType_scheme
     \<Rightarrow> error + (jsValue \<Rightarrow> error + jsValue)" where
  "createInterpolation normalizeColor getValue config =
     (case outputRange config of
        Strings (s # ss) \<Rightarrow>
          (case createInterpolationFromStringOutputRange normalizeColor getValue config (s # ss) of
             Inl e \<Rightarrow> Inl e
           | Inr f \<Rightarrow> Inr (\<lambda>input. case f input of Inl e \<Rightarrow> Inl e | Inr r \<Rightarrow> Inr (VStr r)))
      | Strings [] \<Rightarrow>
          (case createNumericInterpolation getValue config (NumberArray []) of
             Inl e \<Rightarrow> Inl e
           | Inr f \<Rightarrow> Inr (\<lambda>input. case f input of Inl e \<Rightarrow> Inl e | Inr r \<Rightarrow> Inr (VNum r)))
      | Numeric outRange \<Rightarrow>
          (case createNumericInterpolation getValue config outRange of
             Inl e \<Rightarrow> Inl e
           | Inr f \<Rightarrow> Inr (\<lambda>input. case f input of Inl e \<Rightarrow> Inl e | Inr r \<Rightarrow> Inr (VNum r))))"

text \<open>
  \<open>new AnimatedInterpolation(parent, config).__getValue()\<close> for a parent whose value
  is \<open>parentValue\<close>: the constructor builds the mapper, \<open>__getValue\<close> applies it.
\<close>

definition interpolationValue ::
  "(string \<Rightarrow> 32 word option) \<Rightarrow> ('n \<Rightarrow> number) \<Rightarrow> ('n, 'x) InterpolationConfigType_scheme
     \<Rightarrow> jsValue \<Rightarrow> error + jsValue" where
  "interpolationValue normalizeColor getValue config parentValue =
     (case createInterpolation normalizeColor getValue config of
        Inl e \<Rightarrow> Inl e
      | Inr interpolation \<Rightarrow>
          (case parentValue of
             VStr s \<Rightarrow> Inl InputNotANumber
           | VNum x \<Rightarrow> interpolation (VNum x)))"

section \<open>Export to the native tier (AnimatedInterpolation.js)\<close>

text \<open>
  \<open>__transformOutputRange(range: Array<number | string | AnimatedNode>)\<close>. The last
  constructor is an entry of any other type, for which the source has its last two
  statements.
\<close>

datatype 'n outputValue = ONumber number | OString string | ONode 'n | OOther

text \<open>\<open>Math.PI\<close>, the double next to the number.\<close>

definition Math_PI :: real where
  "Math_PI = 884279719003555 / 281474976710656"

text \<open>\<open>/deg$/.test(value)\<close>.\<close>

definition endsWithDeg :: "string \<Rightarrow> bool" where
  "endsWithDeg str = (3 \<le> length str \<and> drop (length str - 3) str = ''deg'')"

text \<open>\<open>x || 0\<close> on a number: \<open>NaN\<close> and zero are falsy.\<close>

definition orZero :: "number \<Rightarrow> number" where
  "orZero x = (if x = NaN \<or> x = Fin 0 then Fin 0 else x)"

text \<open>
  \<open>__getNativeTag\<close> belongs to \<open>AnimatedNode\<close>, outside this file, a parameter here:
  \<open>None\<close> is \<open>null\<close> or \<open>undefined\<close>. \<open>invariant(tag, ...)\<close> throws on a falsy tag,
  \<open>invariant(true, ...)\<close> never throws.
\<close>

fun transformOutputValue :: "('n \<Rightarrow> number option) \<Rightarrow> 'n outputValue \<Rightarrow> error + number" where
  "transformOutputValue getNativeTag (OString v) =
     (if endsWithDeg v
      then Inr (divide_number (mul (orZero (parseFloat v)) (Fin Math_PI)) (Fin 180))
      else Inr (orZero (parseFloat v)))"
| "transformOutputValue getNativeTag (ONumber v) = Inr v"
| "transformOutputValue getNativeTag (ONode n) =
     (case getNativeTag n of
        None \<Rightarrow> Inl NoNativeTag
      | Some tag \<Rightarrow> if tag = NaN \<or> tag = Fin 0 then Inl NoNativeTag else Inr tag)"
| "transformOutputValue getNativeTag OOther = Inr (Fin 0)"

definition transformOutputRange ::
  "('n \<Rightarrow> number option) \<Rightarrow> 'n outputValue list \<Rightarrow> error + number list" where
  "transformOutputRange getNativeTag rng = mapResult (transformOutputValue getNativeTag) rng"

section \<open>The Range Mapper of the native tier (InterpolationAnimatedNode.java)\<close>

datatype javaException =
    JSApplicationIllegalArgumentException   \<comment> \<open>\<open>"Invalid extrapolation type "\<close>\<close>
  | JSApplicationCausedNativeException      \<comment> \<open>\<open>"Illegal node ID set in outputRange"\<close>\<close>
  | ArrayIndexOutOfBoundsException

text \<open>One \<open>switch\<close> of \<open>interpolate\<close>, on the extrapolation type.\<close>

definition extrapolateSwitch :: "number \<Rightarrow> number \<Rightarrow> string \<Rightarrow> javaException + step" where
  "extrapolateSwitch result bound extrapolateType =
     (if extrapolateType = ''identity'' then Inr (Return result)
      else if extrapolateType = ''clamp'' then Inr (Continue bound)
      else if extrapolateType = ''extend'' then Inr (Continue result)
      else Inl JSApplicationIllegalArgumentException)"

text \<open>The private \<open>interpolate\<close> on one segment.\<close>

definition nativeInterpolate ::
  "number \<Rightarrow> number \<Rightarrow> number \<Rightarrow> number \<Rightarrow> number \<Rightarrow> string \<Rightarrow> string \<Rightarrow> javaException + number" where
  "nativeInterpolate val inputMin inputMax outputMin outputMax extrapolateL extrapolateR =
     (let result = val in
      case (if lt result inputMin then extrapolateSwitch result inputMin extrapolateL
            else Inr (Continue result)) of
        Inl e \<Rightarrow> Inl e
      | Inr (Return r) \<Rightarrow> Inr r
      | Inr (Continue result) \<Rightarrow>
          (case (if gt result inputMax then extrapolateSwitch result inputMax extrapolateR
                 else Inr (Continue result)) of
             Inl e \<Rightarrow> Inl e
           | Inr (Return r) \<Rightarrow> Inr r
           | Inr (Continue result) \<Rightarrow>
               Inr (add outputMin
                      (divide_number (mul (sub outputMax outputMin) (sub result inputMin))
                         (sub inputMax inputMin)))))"

function findRangeIndex_loop :: "nat \<Rightarrow> number \<Rightarrow> number list \<Rightarrow> nat" where
  "findRangeIndex_loop index val ranges =
     (if int index < int (length ranges) - 1 then
        (if ge (ranges ! index) val then index else findRangeIndex_loop (index + 1) val ranges)
      else index)"
  by pat_completeness auto
termination
  by (relation "measure (\<lambda>(index, val, ranges). length ranges - index)") auto

declare findRangeIndex_loop.simps [simp del]

definition findRangeIndex :: "number \<Rightarrow> number list \<Rightarrow> nat" where
  "findRangeIndex val ranges = findRangeIndex_loop 1 val ranges - 1"

text \<open>
  A node of the native registry as \<open>interpolate\<close> sees it; \<open>getNodeById\<close> belongs to
  \<open>NativeAnimatedNodesManager\<close>, a parameter here.
\<close>

datatype nativeNode = ValueAnimatedNode number | OtherAnimatedNode

definition outputNodeValues ::
  "(int \<Rightarrow> nativeNode option) \<Rightarrow> int list \<Rightarrow> nat \<Rightarrow> javaException + number \<times> number" where
  "outputNodeValues getNodeById outputRangeAnimations rangeIndex =
     (case (lookup outputRangeAnimations rangeIndex, lookup outputRangeAnimations (rangeIndex + 1)) of
        (Some startId, Some endId) \<Rightarrow>
          (case (getNodeById startId, getNodeById endId) of
             (Some (ValueAnimatedNode outputStartValue), Some (ValueAnimatedNode outputEndValue)) \<Rightarrow>
               Inr (outputStartValue, outputEndValue)
           | _ \<Rightarrow> Inl JSApplicationCausedNativeException)
      | _ \<Rightarrow> Inl ArrayIndexOutOfBoundsException)"

text \<open>
  The package-private \<open>interpolate\<close> on the arrays; \<open>outputRangeAnimations\<close> is
  \<open>None\<close> where the Java reference is \<open>null\<close>. A Java array read past the end throws.
\<close>

definition nativeInterpolateRanges ::
  "number \<Rightarrow> number list \<Rightarrow> number list \<Rightarrow> int list option \<Rightarrow> string \<Rightarrow> string
     \<Rightarrow> (int \<Rightarrow> nativeNode option) \<Rightarrow> javaException + number" where
  "nativeInterpolateRanges val inRange outRange outputRangeAnimations extrapolateL extrapolateR
     getNodeById =
     (let rangeIndex = findRangeIndex val inRange in
      case (case outputRangeAnimations of
              Some ids \<Rightarrow> outputNodeValues getNodeById ids rangeIndex
            | None \<Rightarrow>
                (case (lookup outRange rangeIndex, lookup outRange (rangeIndex + 1)) of
                   (Some outputStartValue, Some outputEndValue) \<Rightarrow>
                     Inr (outputStartValue, outputEndValue)
                 | _ \<Rightarrow> Inl ArrayIndexOutOfBoundsException)) of
        Inl e \<Rightarrow> Inl e
      | Inr (outputStartValue, outputEndValue) \<Rightarrow>
          (case (lookup inRange rangeIndex, lookup inRange (rangeIndex + 1)) of
             (Some inputMin, Some inputMax) \<Rightarrow>
               nativeInterpolate val inputMin inputMax outputStartValue outputEndValue
                 extrapolateL extrapolateR
           | _ \<Rightarrow> Inl ArrayIndexOutOfBoundsException))"

section \<open>Promotion (\<open>AnimatedInterpolation.__makeNative\<close>)\<close>

text \<open>
  The graph above an interpolation node: a node has an identity and is either a
  plain value or an interpolation with its parent and the output range of its
  configuration. Two occurrences of one identity are one node.
\<close>

datatype node = AnimatedValue nat | AnimatedInterpolation nat node "node outputValue list"

fun nodeId :: "node \<Rightarrow> nat" where
  "nodeId (AnimatedValue i) = i"
| "nodeId (AnimatedInterpolation i parent outRange) = i"

text \<open>
  Modelled from the spec: \<open>AnimatedWithChildren.__makeNative\<close>, which
  \<open>super.__makeNative()\<close> calls and which is not among the sources. The spec has
  promotion "construct this node's native counterpart" and "a twice-visited
  dependency promotes once", deduplicated "by node identity". The state is the list
  of the identities whose counterpart has been constructed, in that order.
\<close>

definition constructNative :: "nat \<Rightarrow> nat list \<Rightarrow> nat list" where
  "constructNative ident created = (if ident \<in> set created then created else created @ [ident])"

text \<open>
  \<open>__makeNative\<close>: the parent, then
  \<open>this._config.outputRange.filter(isAnimatedNode).forEach(value => value.__makeNative())\<close>,
  then \<open>super.__makeNative()\<close>. A plain value has the inherited method only.
\<close>

function makeNative :: "node \<Rightarrow> nat list \<Rightarrow> nat list"
  and makeNativeEach :: "node outputValue list \<Rightarrow> nat list \<Rightarrow> nat list" where
  "makeNative (AnimatedValue i) created = constructNative i created"
| "makeNative (AnimatedInterpolation i parent outRange) created =
     constructNative i (makeNativeEach outRange (makeNative parent created))"
| "makeNativeEach [] created = created"
| "makeNativeEach (ONode v # rest) created = makeNativeEach rest (makeNative v created)"
| "makeNativeEach (ONumber x # rest) created = makeNativeEach rest created"
| "makeNativeEach (OString x # rest) created = makeNativeEach rest created"
| "makeNativeEach (OOther # rest) created = makeNativeEach rest created"
  by pat_completeness auto
termination
  by (relation "measure (case_sum (\<lambda>(n, created). size n)
                  (\<lambda>(entries, created). size_list (size_outputValue size) entries))") auto

text \<open>The nodes among the entries of an output range, and what a node depends on.\<close>

fun nodeEntries :: "'n outputValue list \<Rightarrow> 'n list" where
  "nodeEntries [] = []"
| "nodeEntries (ONode v # rest) = v # nodeEntries rest"
| "nodeEntries (ONumber x # rest) = nodeEntries rest"
| "nodeEntries (OString x # rest) = nodeEntries rest"
| "nodeEntries (OOther # rest) = nodeEntries rest"

fun dependencies :: "node \<Rightarrow> node list" where
  "dependencies (AnimatedValue i) = []"
| "dependencies (AnimatedInterpolation i parent outRange) = parent # nodeEntries outRange"

function subnodes :: "node \<Rightarrow> node list"
  and subnodesEach :: "node outputValue list \<Rightarrow> node list" where
  "subnodes (AnimatedValue i) = [AnimatedValue i]"
| "subnodes (AnimatedInterpolation i parent outRange) =
     AnimatedInterpolation i parent outRange # subnodes parent @ subnodesEach outRange"
| "subnodesEach [] = []"
| "subnodesEach (ONode v # rest) = subnodes v @ subnodesEach rest"
| "subnodesEach (ONumber x # rest) = subnodesEach rest"
| "subnodesEach (OString x # rest) = subnodesEach rest"
| "subnodesEach (OOther # rest) = subnodesEach rest"
  by pat_completeness auto
termination
  by (relation "measure (case_sum size (size_list (size_outputValue size)))") auto

definition uniqueIds :: "node \<Rightarrow> bool" where
  "uniqueIds n = (\<forall>a \<in> set (subnodes n). \<forall>b \<in> set (subnodes n). nodeId a = nodeId b \<longrightarrow> a = b)"

text \<open>\<open>a\<close> stands before \<open>b\<close> in a list.\<close>

definition before :: "'a \<Rightarrow> 'a \<Rightarrow> 'a list \<Rightarrow> bool" where
  "before a b xs = (b \<in> set xs \<and> a \<in> set (takeWhile (\<lambda>x. x \<noteq> b) xs))"

section \<open>The segment search as the specification words it\<close>

text \<open>
  "first index \<open>i\<close> (1-based scan, 0-based result) where \<open>inputRange[i] >= x\<close>, else
  last segment": the scan is over the positions \<open>1 .. n - 2\<close>.
\<close>

definition findRange_spec :: "number \<Rightarrow> number list \<Rightarrow> nat" where
  "findRange_spec x arr =
     (case find (\<lambda>i. ge (arr ! i) x) [1 ..< length arr - 1] of
        Some i \<Rightarrow> i - 1
      | None \<Rightarrow> (length arr - 1) - 1)"

section \<open>The degenerate-segment shortcuts as the specification words them\<close>

text \<open>
  Step 4 of the specification's algorithm: "if \<open>outputMin == outputMax\<close>, return that
  constant regardless of \<open>x\<close>. If \<open>inputMin == inputMax\<close> (zero-width segment), return
  \<open>outputMin\<close> when \<open>x <= inputMin\<close>, else \<open>outputMax\<close>"; \<open>None\<close> where neither applies.
\<close>

definition shortcuts_spec ::
  "number \<Rightarrow> number \<Rightarrow> number \<Rightarrow> number \<Rightarrow> number \<Rightarrow> number option" where
  "shortcuts_spec x inputMin inputMax outputMin outputMax =
     (if strictEq outputMin outputMax then Some outputMin
      else if strictEq inputMin inputMax then Some (if le x inputMin then outputMin else outputMax)
      else None)"

section \<open>The pattern evaluation as the specification words it\<close>

text \<open>The matches of the regular expression in a string, none included.\<close>

definition matchesIn :: "string \<Rightarrow> string list" where
  "matchesIn str = matchesOf (pieces str)"

text \<open>
  "Extract, per template, the ordered numeric tokens; this yields \<open>channelCount\<close>
  parallel numeric sequences across the \<open>outputRange\<close> entries": the sequence of
  channel \<open>i\<close>.
\<close>

definition channelColumn :: "string list \<Rightarrow> nat \<Rightarrow> number list" where
  "channelColumn templates i = map (\<lambda>t. toNumber (matchesIn t ! i)) templates"

text \<open>
  "One independent Range Mapper per channel, each reusing the same
  \<open>inputRange\<close>/easing/extrapolation settings": the segment search, then the
  mapping on the chosen segment of the channel's sequence.
\<close>

definition rangeMap ::
  "('n, 'x) InterpolationConfigType_scheme \<Rightarrow> number list \<Rightarrow> number \<Rightarrow> number" where
  "rangeMap config column x =
     (let k = findRange x (inputRange config)
      in interpolate x (inputRange config ! k) (inputRange config ! (k + 1))
           (column ! k) (column ! (k + 1))
           (case easing config of Some f \<Rightarrow> f | None \<Rightarrow> linear_easing)
           (resolveExtrapolate (extrapolateLeft config) (extrapolate config))
           (resolveExtrapolate (extrapolateRight config) (extrapolate config)))"

text \<open>
  "Integer rounding for the first three channels only if the template is an
  rgb/rgba pattern, else rounded to 3 decimal places for all channels."
\<close>

definition formatValue :: "bool \<Rightarrow> nat \<Rightarrow> number \<Rightarrow> string" where
  "formatValue rgb channel v =
     numberToString (if rgb \<and> channel < 3 then mathRound v
                     else divide_number (mathRound (mul v (Fin 1000))) (Fin 1000))"

text \<open>
  "Substitute each numeric token position in the first template, in left-to-right
  order": the tokens of the template take the given strings, one after the other.
\<close>

fun fillTemplate :: "piece list \<Rightarrow> string list \<Rightarrow> string" where
  "fillTemplate [] vs = []"
| "fillTemplate (Literal c # ps) vs = c # fillTemplate ps vs"
| "fillTemplate (Match m # ps) (v # vs) = v @ fillTemplate ps vs"
| "fillTemplate (Match m # ps) [] = m @ fillTemplate ps []"

definition patternValue ::
  "('n, 'x) InterpolationConfigType_scheme \<Rightarrow> string list \<Rightarrow> number \<Rightarrow> string" where
  "patternValue config templates x =
     (let template = templates ! 0
      in fillTemplate (pieces template)
           (map (\<lambda>i. formatValue (isRgbOrRgba template) i
                        (rangeMap config (channelColumn templates i) x))
              [0 ..< length (matchesIn template)]))"

section \<open>The malformed configurations as the specification lists them\<close>

fun outputLength :: "'n outputRangeType \<Rightarrow> nat" where
  "outputLength (Numeric outRange) = rangeLength outRange"
| "outputLength (Strings strs) = length strs"

text \<open>
  "Range length < 2, length mismatch between input/output ranges, non-monotonic
  input range, forbidden fully-infinite single-segment range, mismatched string
  templates across output-range entries"; the templates are the entries after the
  colour normalizer, a skeleton is a template without its numeric tokens.
\<close>

definition malformed ::
  "(string \<Rightarrow> 32 word option) \<Rightarrow> ('n, 'x) InterpolationConfigType_scheme \<Rightarrow> bool" where
  "malformed normalizeColor config =
     (length (inputRange config) < 2
      \<or> length (inputRange config) \<noteq> outputLength (outputRange config)
      \<or> (\<exists>i \<in> set [1 ..< length (inputRange config)].
            lt (inputRange config ! i) (inputRange config ! (i - 1)))
      \<or> inputRange config = [NegInf, PosInf]
      \<or> outputRange config = Numeric (NumberArray [NegInf, PosInf])
      \<or> (case outputRange config of
            Strings strs \<Rightarrow>
              \<exists>i \<in> set [1 ..< length strs].
                replaceShapeEmpty (colorToRgba normalizeColor (strs ! i))
                  \<noteq> replaceShapeEmpty (colorToRgba normalizeColor (strs ! 0))
          | Numeric outRange \<Rightarrow> False))"

text \<open>
  Two tokens beyond the doubles: \<open>10^309\<close> and \<open>-10^309\<close> written out, a one and 309
  zeros, and the entries \<open>"<token>px"\<close> made of them.
\<close>

abbreviation hugeToken :: string where
  "hugeToken \<equiv> ''1000000000000000000000000000000000000000000000000000000000000000000000000000000000000000000000000000000000000000000000000000000000000000000000000000000000000000000000000000000000000000000000000000000000000000000000000000000000000000000000000000000000000000000000000000000000000000000000000000000000000000000000''"

abbreviation minusHugeToken :: string where
  "minusHugeToken \<equiv> ''-1000000000000000000000000000000000000000000000000000000000000000000000000000000000000000000000000000000000000000000000000000000000000000000000000000000000000000000000000000000000000000000000000000000000000000000000000000000000000000000000000000000000000000000000000000000000000000000000000000000000000000000000''"

abbreviation hugePx :: string where
  "hugePx \<equiv> ''1000000000000000000000000000000000000000000000000000000000000000000000000000000000000000000000000000000000000000000000000000000000000000000000000000000000000000000000000000000000000000000000000000000000000000000000000000000000000000000000000000000000000000000000000000000000000000000000000000000000000000000000px''"

abbreviation minusHugePx :: string where
  "minusHugePx \<equiv> ''-1000000000000000000000000000000000000000000000000000000000000000000000000000000000000000000000000000000000000000000000000000000000000000000000000000000000000000000000000000000000000000000000000000000000000000000000000000000000000000000000000000000000000000000000000000000000000000000000000000000000000000000000px''"

section \<open>Auxiliary notions of the proofs\<close>

text \<open>
  The numbers that the entries \<open>strs\<close> push onto column \<open>j\<close>: one for each entry
  with more than \<open>j\<close> matches.
\<close>

definition columnOf :: "string list \<Rightarrow> nat \<Rightarrow> number list" where
  "columnOf strs j =
     concat (map (\<lambda>v. case lookup (matchesIn v) j of Some m \<Rightarrow> [toNumber m] | None \<Rightarrow> []) strs)"

text \<open>
  Among the nodes \<open>U\<close>, each one whose counterpart is constructed has those of its
  dependencies constructed before.
\<close>

definition ordered :: "node set \<Rightarrow> nat list \<Rightarrow> bool" where
  "ordered U c = (\<forall>m \<in> U. nodeId m \<in> set c \<longrightarrow>
                    (\<forall>d \<in> set (dependencies m). before (nodeId d) (nodeId m) c))"

section \<open>Properties of the segment search\<close>

lemma loop_guard: "(int i < int n - 1) = (i < n - 1)"
  by auto

lemma findRange_loop_find:
  "i \<le> length arr - 1 \<Longrightarrow>
   findRange_loop i x arr =
     (case find (\<lambda>j. ge (arr ! j) x) [i ..< length arr - 1] of
        Some j \<Rightarrow> j | None \<Rightarrow> length arr - 1)"
proof (induction i x arr rule: findRange_loop.induct)
  case (1 i input arr)
  show ?case
  proof (cases "i < length arr - 1")
    case True
    then have u: "[i ..< length arr - 1] = i # [i + 1 ..< length arr - 1]"
      by (simp add: upt_conv_Cons)
    show ?thesis
    proof (cases "ge (arr ! i) input")
      case True
      with \<open>i < length arr - 1\<close> u show ?thesis
        by (subst findRange_loop.simps) (simp add: loop_guard)
    next
      case False
      have "findRange_loop (i + 1) input arr =
        (case find (\<lambda>j. ge (arr ! j) input) [i + 1 ..< length arr - 1] of
           Some j \<Rightarrow> j | None \<Rightarrow> length arr - 1)"
        using "1.IH" [OF _ False] True by (simp add: loop_guard)
      with False True u show ?thesis
        by (subst findRange_loop.simps) (simp add: loop_guard)
    qed
  next
    case False
    with "1.prems" have "i = length arr - 1" by simp
    then show ?thesis
      by (subst findRange_loop.simps) (simp add: loop_guard)
  qed
qed

lemma findRange_loop_bounds:
  "i \<le> length arr - 1 \<Longrightarrow>
   i \<le> findRange_loop i x arr \<and> findRange_loop i x arr \<le> length arr - 1"
proof (induction i x arr rule: findRange_loop.induct)
  case (1 i input arr)
  show ?case
  proof (cases "int i < int (length arr) - 1 \<and> \<not> ge (arr ! i) input")
    case True
    then have "i + 1 \<le> length arr - 1" by linarith
    with "1.IH" True
    have "i + 1 \<le> findRange_loop (i + 1) input arr
        \<and> findRange_loop (i + 1) input arr \<le> length arr - 1"
      by blast
    with True show ?thesis by (subst (1 2) findRange_loop.simps) simp
  next
    case False
    with "1.prems" show ?thesis by (subst (1 2) findRange_loop.simps) auto
  qed
qed

lemma findRange_in_range:
  assumes "2 \<le> length arr"
  shows "findRange x arr + 1 < length arr"
proof -
  from assms have "1 \<le> length arr - 1" by simp
  from findRange_loop_bounds [OF this, of x] assms show ?thesis
    unfolding findRange_def by linarith
qed

section \<open>The order on numbers\<close>

lemma lt_le_trans: "lt a b \<Longrightarrow> le b c \<Longrightarrow> lt a c"
  by (cases a; cases b; cases c; simp)

lemma lt_asym: "lt a b \<Longrightarrow> \<not> lt b a"
  by (cases a; cases b; simp)

lemma lt_irrefl: "\<not> lt a a"
  by (cases a; simp)

lemma le_not_lt: "le a b \<Longrightarrow> \<not> lt b a"
  by (cases a; cases b; simp)

lemma lt_imp_le: "lt a b \<Longrightarrow> le a b"
  by (cases a; cases b; simp)

lemma lt_not_strictEq: "lt a b \<Longrightarrow> \<not> strictEq a b"
  by (cases a; cases b; simp add: strictEq_def)

lemma below_segment:
  assumes "lt x inputMin" "le inputMin inputMax"
  shows "\<not> gt x inputMax" "\<not> gt inputMin inputMax"
  using assms lt_le_trans [OF assms] lt_asym le_not_lt by (auto simp: gt_def)

lemma above_segment:
  assumes "gt x inputMax" "le inputMin inputMax"
  shows "\<not> lt x inputMin" "\<not> lt inputMax inputMin"
proof -
  show "\<not> lt x inputMin"
  proof
    assume "lt x inputMin"
    from lt_le_trans [OF this assms(2)] assms(1) lt_asym show False by (auto simp: gt_def)
  qed
  show "\<not> lt inputMax inputMin" using assms(2) le_not_lt by blast
qed

section \<open>Arrays mapped with a callback that may throw\<close>

lemma mapResult_Inr:
  "mapResult f xs = Inr ys \<Longrightarrow>
   length ys = length xs \<and> (\<forall>i < length xs. f (xs ! i) = Inr (ys ! i))"
proof (induction xs arbitrary: ys)
  case Nil
  then show ?case by simp
next
  case (Cons x xs)
  from Cons.prems obtain y ys2 where y: "f x = Inr y" and ys2: "mapResult f xs = Inr ys2"
    and ys: "ys = y # ys2"
    by (auto split: sum.splits)
  from Cons.IH [OF ys2] y ys show ?case
    by (auto simp: nth_Cons split: nat.splits)
qed

lemma mapResult_Inl:
  "x \<in> set xs \<Longrightarrow> f x = Inl e \<Longrightarrow> \<forall>y \<in> set xs. \<forall>e2. f y = Inl e2 \<longrightarrow> e2 = e \<Longrightarrow>
   mapResult f xs = Inl e"
proof (induction xs)
  case Nil
  then show ?case by simp
next
  case (Cons a xs)
  show ?case
  proof (cases "f a")
    case (Inl e2)
    with Cons.prems(3) have "e2 = e" by simp
    with Inl show ?thesis by simp
  next
    case (Inr b)
    with Cons.prems have "x \<in> set xs" by auto
    from Cons.IH [OF this Cons.prems(2)] Cons.prems(3) have "mapResult f xs = Inl e" by simp
    with Inr show ?thesis by simp
  qed
qed

section \<open>Properties of the Range Mapper\<close>

lemmas mapper_eval = interpolationValue_def createInterpolation_def createNumericInterpolation_def
  checkInfiniteRange_def checkValidInputRange_def numericMapper_def resolveExtrapolate_def
  lookup_def findRange_def findRange_loop.simps interpolate_def extrapolateStep_def mapSegment_def
  strictEq_def gt_def ge_def sub_def linear_easing_def

lemmas string_eval = isShapeChar_def matchShape_def replaceShapeEmpty_def toNumber_def signPart_def
  literalValue_def literalOverflow_def
  unsignedDecimal_def isDigit_def natOfDigits_def digitValue_def exponentPart_def digitChar_def
  natToString.simps fractionToString.simps fractionDigits_def unsignedToString_def
  isRgbOrRgba_def checkPattern_def matchesIn_def pieces.simps numberToString.simps

lemmas parse_eval = endsWithDeg_def parseFloat_def signPart_def isWhiteSpace_def
  literalValue_def literalOverflow_def
  unsignedDecimal_def isDigit_def natOfDigits_def digitValue_def exponentPart_def

text \<open>
  C2. On every input range of at least two entries and every input, \<open>NaN\<close> and the
  infinities included, \<open>findRange\<close> returns what the specification words: the first
  position \<open>i\<close> of the scan over \<open>1 .. n - 2\<close> with \<open>inputRange[i] >= x\<close>, or else
  \<open>n - 1\<close>, minus one. So an input above every inner entry selects the last
  segment, an input at or below \<open>inputRange[1]\<close> the first one, and a segment other
  than the last has \<open>x\<close> at or below its upper end and above every inner entry
  before it. For \<open>inputRange = [0, 1, 2]\<close> and \<open>outputRange = [10, 20, 30]\<close>
  the input \<open>1\<close> selects the segment \<open>[0, 1]\<close> and maps to \<open>20\<close>.
\<close>

theorem findRange_left_biased_scan:
  "(2 \<le> length arr \<longrightarrow> findRange x arr = findRange_spec x arr)
   \<and> (2 \<le> length arr \<and> (\<forall>i \<in> set [1 ..< length arr - 1]. \<not> ge (arr ! i) x)
        \<longrightarrow> findRange x arr = length arr - 2)
   \<and> (3 \<le> length arr \<and> ge (arr ! 1) x \<longrightarrow> findRange x arr = 0)
   \<and> (2 \<le> length arr \<and> findRange x arr < length arr - 2
        \<longrightarrow> ge (arr ! (findRange x arr + 1)) x
            \<and> (\<forall>i \<in> set [1 ..< findRange x arr + 1]. \<not> ge (arr ! i) x))
   \<and> findRange (Fin 1) [Fin 0, Fin 1, Fin 2] = 0
   \<and> interpolationValue normalizeColor getValue
         \<lparr>inputRange = [Fin 0, Fin 1, Fin 2],
          outputRange = Numeric (NumberArray [Fin 10, Fin 20, Fin 30]),
          easing = None, extrapolate = None, extrapolateLeft = None, extrapolateRight = None\<rparr>
         (VNum (Fin 1)) = Inr (VNum (Fin 20))"
proof -
  have spec: "findRange x arr = findRange_spec x arr" if "2 \<le> length arr"
  proof -
    from that have "1 \<le> length arr - 1" by simp
    from findRange_loop_find [OF this, of x] show ?thesis
      unfolding findRange_def findRange_spec_def by (simp split: option.splits)
  qed
  have high: "findRange x arr = length arr - 2"
    if "2 \<le> length arr" "\<forall>i \<in> set [1 ..< length arr - 1]. \<not> ge (arr ! i) x"
  proof -
    from that(2) have "find (\<lambda>i. ge (arr ! i) x) [1 ..< length arr - 1] = None"
      by (simp add: find_None_iff)
    with spec [OF that(1)] show ?thesis by (simp add: findRange_spec_def)
  qed
  have low: "findRange x arr = 0" if "3 \<le> length arr" "ge (arr ! 1) x"
  proof -
    from that(1) have "[1 ..< length arr - 1] = 1 # [Suc 1 ..< length arr - 1]"
      by (intro upt_conv_Cons) simp
    with that(2) have "find (\<lambda>i. ge (arr ! i) x) [1 ..< length arr - 1] = Some 1" by simp
    with spec that(1) show ?thesis by (simp add: findRange_spec_def)
  qed
  have inner: "ge (arr ! (findRange x arr + 1)) x
            \<and> (\<forall>i \<in> set [1 ..< findRange x arr + 1]. \<not> ge (arr ! i) x)"
    if "2 \<le> length arr" "findRange x arr < length arr - 2"
  proof (cases "find (\<lambda>i. ge (arr ! i) x) [1 ..< length arr - 1]")
    case None
    with spec [OF that(1)] that(2) show ?thesis by (simp add: findRange_spec_def)
  next
    case (Some k)
    then obtain j where j: "j < length [1 ..< length arr - 1]" "ge (arr ! ([1 ..< length arr - 1] ! j)) x"
      "k = [1 ..< length arr - 1] ! j" "\<forall>l < j. \<not> ge (arr ! ([1 ..< length arr - 1] ! l)) x"
      unfolding find_Some_iff by blast
    from j(1,3) have k: "k = 1 + j" by simp
    from spec [OF that(1)] Some k have fr: "findRange x arr = j" by (simp add: findRange_spec_def)
    have "\<forall>i \<in> set [1 ..< j + 1]. \<not> ge (arr ! i) x"
    proof
      fix i assume "i \<in> set [1 ..< j + 1]"
      then have i: "1 \<le> i" "i - 1 < j" by auto
      with j(1) have "[1 ..< length arr - 1] ! (i - 1) = i" by simp
      moreover from j(4) i(2) have "\<not> ge (arr ! ([1 ..< length arr - 1] ! (i - 1))) x"
        by blast
      ultimately show "\<not> ge (arr ! i) x" by simp
    qed
    with j(2) j(1) k fr show ?thesis by simp
  qed
  have example: "interpolationValue normalizeColor getValue
         \<lparr>inputRange = [Fin 0, Fin 1, Fin 2],
          outputRange = Numeric (NumberArray [Fin 10, Fin 20, Fin 30]),
          easing = None, extrapolate = None, extrapolateLeft = None, extrapolateRight = None\<rparr>
         (VNum (Fin 1)) = Inr (VNum (Fin 20))"
    by (simp add: mapper_eval)
  have segment: "findRange (Fin 1) [Fin 0, Fin 1, Fin 2] = 0"
    by (simp add: findRange_def findRange_loop.simps ge_def)
  from spec high low inner example segment show ?thesis by blast
qed


theorem findRange_left_biased_scan_witness:
  "2 \<le> length [Fin 0, Fin 1, Fin 2, Fin 3]
   \<and> findRange (Fin 2) [Fin 0, Fin 1, Fin 2, Fin 3]
       = findRange_spec (Fin 2) [Fin 0, Fin 1, Fin 2, Fin 3]
   \<and> findRange_spec (Fin 2) [Fin 0, Fin 1, Fin 2, Fin 3] = 1
   \<and> ge ([Fin 0, Fin 1, Fin 2, Fin 3] ! 2) (Fin 2)
   \<and> \<not> ge ([Fin 0, Fin 1, Fin 2, Fin 3] ! 1) (Fin 5)
   \<and> \<not> ge ([Fin 0, Fin 1, Fin 2, Fin 3] ! 2) (Fin 5)
   \<and> findRange (Fin 5) [Fin 0, Fin 1, Fin 2, Fin 3] = 2
   \<and> findRange NaN [Fin 0, Fin 1, Fin 2, Fin 3] = 2
   \<and> ge ([Fin 0, Fin 1, Fin 2, Fin 3] ! 1) (Fin (- 1))
   \<and> findRange (Fin (- 1)) [Fin 0, Fin 1, Fin 2, Fin 3] = 0"
  using findRange_left_biased_scan
    [where arr = "[Fin 0, Fin 1, Fin 2, Fin 3]" and x = "Fin 2"
       and normalizeColor = "\<lambda>s. None" and getValue = "\<lambda>n :: unit. NaN"]
    findRange_left_biased_scan
    [where arr = "[Fin 0, Fin 1, Fin 2, Fin 3]" and x = "Fin 5"
       and normalizeColor = "\<lambda>s. None" and getValue = "\<lambda>n :: unit. NaN"]
    findRange_left_biased_scan
    [where arr = "[Fin 0, Fin 1, Fin 2, Fin 3]" and x = NaN
       and normalizeColor = "\<lambda>s. None" and getValue = "\<lambda>n :: unit. NaN"]
    findRange_left_biased_scan
    [where arr = "[Fin 0, Fin 1, Fin 2, Fin 3]" and x = "Fin (- 1)"
       and normalizeColor = "\<lambda>s. None" and getValue = "\<lambda>n :: unit. NaN"]
  by (simp add: findRange_spec_def ge_def upt_conv_Cons)

text \<open>
  C3, as it is worded ("with clamp, x is replaced by inputMin before mapping ...
  mirrored at the high end with extrapolateRight and inputMax"): above the
  zero-width segment \<open>[5, 5]\<close> with the outputs \<open>[1, 2]\<close> and \<open>clamp\<close> on the right, the
  input \<open>6\<close> does not map to what \<open>inputMax\<close> maps to, which is \<open>1\<close>, but to \<open>2\<close>.
\<close>

theorem clamp_above_zero_width_counterexample:
  "gt (Fin 6) (Fin 5) \<and> le (Fin 5) (Fin 5)
   \<and> extrapolateStep (Fin 6) (Fin 5) (Fin 5) ''extend'' ''clamp'' = Continue (Fin 5)
   \<and> interpolate (Fin 5) (Fin 5) (Fin 5) (Fin 1) (Fin 2) linear_easing ''extend'' ''clamp'' = Fin 1
   \<and> interpolate (Fin 6) (Fin 5) (Fin 5) (Fin 1) (Fin 2) linear_easing ''extend'' ''clamp'' = Fin 2"
  by (simp add: extrapolateStep_def interpolate_def mapSegment_def strictEq_def gt_def)

text \<open>
  C3, amended. Below the segment (\<open>x < inputMin\<close>): with \<open>identity\<close> the mapper
  returns \<open>x\<close> whatever the outputs and the easing are; with \<open>clamp\<close> the local
  \<open>result\<close> becomes \<open>inputMin\<close> and the mapper returns what it returns at
  \<open>inputMin\<close>; with \<open>extend\<close> \<open>result\<close> stays \<open>x\<close> and, on finite bounds with linear
  easing, the value lies on the segment's line. The same above the segment with
  \<open>extrapolateRight\<close> and \<open>inputMax\<close>, but for \<open>clamp\<close> on a zero-width segment:
  \<open>result\<close> becomes \<open>inputMax\<close> there too, and the mapper returns \<open>outputMax\<close>, not
  its value at \<open>inputMax\<close>, since the zero-width shortcut tests the input as it was
  passed. For \<open>inputRange = [0, 1]\<close>, \<open>outputRange = [0, 10]\<close> the input \<open>-1\<close> maps to
  \<open>0\<close> under \<open>clamp\<close>, \<open>-1\<close> under \<open>identity\<close> and \<open>-10\<close> under \<open>extend\<close>.
\<close>

theorem extrapolation_policy:
  "(lt x inputMin \<longrightarrow>
      interpolate x inputMin inputMax outputMin outputMax easingFn ''identity'' er = x)
   \<and> (lt x inputMin \<and> le inputMin inputMax \<longrightarrow>
        extrapolateStep x inputMin inputMax ''clamp'' er = Continue inputMin
      \<and> interpolate x inputMin inputMax outputMin outputMax easingFn ''clamp'' er
          = interpolate inputMin inputMin inputMax outputMin outputMax easingFn ''clamp'' er
      \<and> extrapolateStep x inputMin inputMax ''extend'' er = Continue x)
   \<and> (gt x inputMax \<and> le inputMin inputMax \<longrightarrow>
        interpolate x inputMin inputMax outputMin outputMax easingFn el ''identity'' = x
      \<and> extrapolateStep x inputMin inputMax el ''clamp'' = Continue inputMax
      \<and> extrapolateStep x inputMin inputMax el ''extend'' = Continue x)
   \<and> (gt x inputMax \<and> lt inputMin inputMax \<longrightarrow>
        interpolate x inputMin inputMax outputMin outputMax easingFn el ''clamp''
          = interpolate inputMax inputMin inputMax outputMin outputMax easingFn el ''clamp'')
   \<and> (gt x inputMax \<and> strictEq inputMin inputMax \<longrightarrow>
        interpolate x inputMin inputMax outputMin outputMax easingFn el ''clamp''
          = (if strictEq outputMin outputMax then outputMin else outputMax))
   \<and> (a < b \<and> v < a \<longrightarrow>
        interpolate (Fin v) (Fin a) (Fin b) (Fin c) (Fin d) linear_easing ''extend'' er
          = Fin (c + (v - a) * ((d - c) / (b - a))))
   \<and> (a < b \<and> b < v \<longrightarrow>
        interpolate (Fin v) (Fin a) (Fin b) (Fin c) (Fin d) linear_easing el ''extend''
          = Fin (c + (v - a) * ((d - c) / (b - a))))
   \<and> interpolationValue normalizeColor getValue
        \<lparr>inputRange = [Fin 0, Fin 1], outputRange = Numeric (NumberArray [Fin 0, Fin 10]),
          easing = None, extrapolate = None, extrapolateLeft = Some ''clamp'',
          extrapolateRight = None\<rparr> (VNum (Fin (- 1))) = Inr (VNum (Fin 0))
   \<and> interpolationValue normalizeColor getValue
        \<lparr>inputRange = [Fin 0, Fin 1], outputRange = Numeric (NumberArray [Fin 0, Fin 10]),
          easing = None, extrapolate = None, extrapolateLeft = Some ''identity'',
          extrapolateRight = None\<rparr> (VNum (Fin (- 1))) = Inr (VNum (Fin (- 1)))
   \<and> interpolationValue normalizeColor getValue
        \<lparr>inputRange = [Fin 0, Fin 1], outputRange = Numeric (NumberArray [Fin 0, Fin 10]),
          easing = None, extrapolate = None, extrapolateLeft = Some ''extend'',
          extrapolateRight = None\<rparr> (VNum (Fin (- 1))) = Inr (VNum (Fin (- 10)))"
proof (intro conjI impI)
  assume "lt x inputMin"
  then show "interpolate x inputMin inputMax outputMin outputMax easingFn ''identity'' er = x"
    by (simp add: interpolate_def extrapolateStep_def)
next
  assume h: "lt x inputMin \<and> le inputMin inputMax"
  with below_segment [of x inputMin inputMax]
  show "extrapolateStep x inputMin inputMax ''clamp'' er = Continue inputMin"
    by (simp add: extrapolateStep_def)
  from h below_segment [of x inputMin inputMax]
  show "extrapolateStep x inputMin inputMax ''extend'' er = Continue x"
    by (simp add: extrapolateStep_def)
  have "le x inputMin" "le inputMin inputMin \<or> \<not> strictEq inputMin inputMax"
    using h lt_imp_le by (cases inputMin; auto simp: strictEq_def)+
  with h below_segment [of x inputMin inputMax] lt_irrefl [of inputMin]
  show "interpolate x inputMin inputMax outputMin outputMax easingFn ''clamp'' er
          = interpolate inputMin inputMin inputMax outputMin outputMax easingFn ''clamp'' er"
    by (auto simp add: interpolate_def extrapolateStep_def mapSegment_def Let_def)
next
  assume h: "gt x inputMax \<and> le inputMin inputMax"
  with above_segment [of x inputMax inputMin]
  show "interpolate x inputMin inputMax outputMin outputMax easingFn el ''identity'' = x"
    by (simp add: interpolate_def extrapolateStep_def)
  from h above_segment [of x inputMax inputMin]
  show "extrapolateStep x inputMin inputMax el ''clamp'' = Continue inputMax"
    by (simp add: extrapolateStep_def)
  from h above_segment [of x inputMax inputMin]
  show "extrapolateStep x inputMin inputMax el ''extend'' = Continue x"
    by (simp add: extrapolateStep_def)
next
  assume h: "gt x inputMax \<and> lt inputMin inputMax"
  then have "le inputMin inputMax" "\<not> strictEq inputMin inputMax"
    using lt_imp_le lt_not_strictEq by blast+
  with h above_segment [of x inputMax inputMin] lt_irrefl [of inputMax] lt_asym [of inputMin inputMax]
  show "interpolate x inputMin inputMax outputMin outputMax easingFn el ''clamp''
          = interpolate inputMax inputMin inputMax outputMin outputMax easingFn el ''clamp''"
    by (simp add: interpolate_def extrapolateStep_def mapSegment_def Let_def gt_def)
next
  assume h: "gt x inputMax \<and> strictEq inputMin inputMax"
  then have eq: "inputMin = inputMax" and above: "lt inputMax x"
    by (simp_all add: strictEq_def gt_def)
  from above have "\<not> lt x inputMax" "\<not> le x inputMax"
    using lt_asym le_not_lt by blast+
  with h eq
  show "interpolate x inputMin inputMax outputMin outputMax easingFn el ''clamp''
          = (if strictEq outputMin outputMax then outputMin else outputMax)"
    by (simp add: interpolate_def extrapolateStep_def mapSegment_def)
next
  assume "a < b \<and> v < a"
  then show "interpolate (Fin v) (Fin a) (Fin b) (Fin c) (Fin d) linear_easing ''extend'' er
          = Fin (c + (v - a) * ((d - c) / (b - a)))"
    by (simp add: interpolate_def extrapolateStep_def mapSegment_def Let_def gt_def strictEq_def
        sub_def linear_easing_def)
next
  assume "a < b \<and> b < v"
  then show "interpolate (Fin v) (Fin a) (Fin b) (Fin c) (Fin d) linear_easing el ''extend''
          = Fin (c + (v - a) * ((d - c) / (b - a)))"
    by (simp add: interpolate_def extrapolateStep_def mapSegment_def Let_def gt_def strictEq_def
        sub_def linear_easing_def)
qed (simp_all add: mapper_eval)

theorem extrapolation_policy_witness:
  "lt (Fin (- 1)) (Fin 0) \<and> le (Fin 0) (Fin 1) \<and> gt (Fin 2) (Fin 1) \<and> lt (Fin 0) (Fin 1)
   \<and> (0::real) < 1 \<and> (- 1::real) < 0 \<and> (1::real) < 2
   \<and> interpolate (Fin (- 1)) (Fin 0) (Fin 1) (Fin 0) (Fin 10) linear_easing ''identity'' ''extend'' = Fin (- 1)
   \<and> interpolate (Fin (- 1)) (Fin 0) (Fin 1) (Fin 0) (Fin 10) linear_easing ''clamp'' ''extend''
       = interpolate (Fin 0) (Fin 0) (Fin 1) (Fin 0) (Fin 10) linear_easing ''clamp'' ''extend''
   \<and> interpolate (Fin 2) (Fin 0) (Fin 1) (Fin 0) (Fin 10) linear_easing ''extend'' ''identity'' = Fin 2
   \<and> interpolate (Fin 2) (Fin 0) (Fin 1) (Fin 0) (Fin 10) linear_easing ''extend'' ''clamp''
       = interpolate (Fin 1) (Fin 0) (Fin 1) (Fin 0) (Fin 10) linear_easing ''extend'' ''clamp''
   \<and> interpolate (Fin (- 1)) (Fin 0) (Fin 1) (Fin 0) (Fin 10) linear_easing ''extend'' ''extend'' = Fin (- 10)
   \<and> interpolate (Fin 2) (Fin 0) (Fin 1) (Fin 0) (Fin 10) linear_easing ''extend'' ''extend'' = Fin 20
   \<and> gt (Fin 6) (Fin 5) \<and> strictEq (Fin 5) (Fin 5)
   \<and> interpolate (Fin 6) (Fin 5) (Fin 5) (Fin 1) (Fin 2) linear_easing ''extend'' ''clamp'' = Fin 2"
  using extrapolation_policy [where x = "Fin 6" and inputMin = "Fin 5" and inputMax = "Fin 5"
      and outputMin = "Fin 1" and outputMax = "Fin 2" and easingFn = linear_easing and er = "''extend''"
      and el = "''extend''" and a = 0 and b = 1 and v = 2 and c = 0 and d = 10
      and normalizeColor = "\<lambda>s. None" and getValue = "\<lambda>n :: unit. NaN"]
    extrapolation_policy [where x = "Fin (- 1)" and inputMin = "Fin 0" and inputMax = "Fin 1"
      and outputMin = "Fin 0" and outputMax = "Fin 10" and easingFn = linear_easing and er = "''extend''"
      and el = "''extend''" and a = 0 and b = 1 and v = "- 1" and c = 0 and d = 10
      and normalizeColor = "\<lambda>s. None" and getValue = "\<lambda>n :: unit. NaN"]
    extrapolation_policy [where x = "Fin 2" and inputMin = "Fin 0" and inputMax = "Fin 1"
      and outputMin = "Fin 0" and outputMax = "Fin 10" and easingFn = linear_easing and er = "''extend''"
      and el = "''extend''" and a = 0 and b = 1 and v = 2 and c = 0 and d = 10
      and normalizeColor = "\<lambda>s. None" and getValue = "\<lambda>n :: unit. NaN"]
  by (simp add: gt_def strictEq_def)


text \<open>
  C4, as it is worded: the shortcuts of step 4 on the \<open>x\<close> that step 3 has
  left. With \<open>clamp\<close> on the right, the zero-width segment \<open>[5, 5]\<close> and the outputs
  \<open>[1, 2]\<close>, step 3 turns the input \<open>6\<close> into \<open>5\<close>, for which the worded shortcut
  gives \<open>outputMin = 1\<close>; the source tests its parameter \<open>input\<close> and returns \<open>2\<close>.
\<close>

theorem shortcut_on_clamped_input_counterexample:
  "extrapolateStep (Fin 6) (Fin 5) (Fin 5) ''extend'' ''clamp'' = Continue (Fin 5)
   \<and> shortcuts_spec (Fin 5) (Fin 5) (Fin 5) (Fin 1) (Fin 2) = Some (Fin 1)
   \<and> interpolate (Fin 6) (Fin 5) (Fin 5) (Fin 1) (Fin 2) linear_easing ''extend'' ''clamp'' = Fin 2"
  by (simp add: extrapolateStep_def shortcuts_spec_def interpolate_def mapSegment_def strictEq_def gt_def)


text \<open>
  C4, amended. Where the extrapolation step has not returned: if
  \<open>outputMin === outputMax\<close> the mapper returns that constant; otherwise, on a
  zero-width segment, it returns \<open>outputMin\<close> when the input as it was passed (not
  the value \<open>clamp\<close> may have put in its place) is \<open><= inputMin\<close>, else \<open>outputMax\<close>.
  For \<open>inputRange = [5, 5]\<close>, \<open>outputRange = [1, 2]\<close> the result is \<open>1\<close> for \<open>x <= 5\<close>
  and \<open>2\<close> for \<open>x > 5\<close>, under \<open>extend\<close> and under \<open>clamp\<close>.
\<close>

theorem degenerate_segment_shortcuts:
  "(extrapolateStep input inputMin inputMax el er = Continue result \<and> strictEq outputMin outputMax
        \<longrightarrow> interpolate input inputMin inputMax outputMin outputMax easingFn el er = outputMin)
   \<and> (extrapolateStep input inputMin inputMax el er = Continue result
        \<and> \<not> strictEq outputMin outputMax \<and> strictEq inputMin inputMax
        \<longrightarrow> interpolate input inputMin inputMax outputMin outputMax easingFn el er
              = (if le input inputMin then outputMin else outputMax))
   \<and> (e \<in> {None, Some ''extend'', Some ''clamp''} \<longrightarrow>
        interpolationValue normalizeColor getValue
          \<lparr>inputRange = [Fin 5, Fin 5], outputRange = Numeric (NumberArray [Fin 1, Fin 2]),
           easing = None, extrapolate = e, extrapolateLeft = None, extrapolateRight = None\<rparr>
          (VNum (Fin x)) = Inr (VNum (Fin (if x \<le> 5 then 1 else 2))))"
proof (intro conjI impI)
  assume "e \<in> {None, Some ''extend'', Some ''clamp''}"
  then show "interpolationValue normalizeColor getValue
          \<lparr>inputRange = [Fin 5, Fin 5], outputRange = Numeric (NumberArray [Fin 1, Fin 2]),
           easing = None, extrapolate = e, extrapolateLeft = None, extrapolateRight = None\<rparr>
          (VNum (Fin x)) = Inr (VNum (Fin (if x \<le> 5 then 1 else 2)))"
    by (auto simp add: mapper_eval)
qed (auto simp add: interpolate_def mapSegment_def)

theorem degenerate_segment_shortcuts_witness:
  "extrapolateStep (Fin 6) (Fin 5) (Fin 5) ''extend'' ''clamp'' = Continue (Fin 5)
   \<and> \<not> strictEq (Fin 1) (Fin 2) \<and> strictEq (Fin 5) (Fin 5)
   \<and> interpolate (Fin 6) (Fin 5) (Fin 5) (Fin 1) (Fin 2) linear_easing ''extend'' ''clamp''
       = (if le (Fin 6) (Fin 5) then Fin 1 else Fin 2)
   \<and> extrapolateStep (Fin 6) (Fin 5) (Fin 7) ''extend'' ''clamp'' = Continue (Fin 6)
   \<and> strictEq (Fin 3) (Fin 3)
   \<and> interpolate (Fin 6) (Fin 5) (Fin 7) (Fin 3) (Fin 3) linear_easing ''extend'' ''clamp'' = Fin 3
   \<and> Some ''clamp'' \<in> {None, Some ''extend'', Some ''clamp''}
   \<and> interpolationValue (\<lambda>s. None) (\<lambda>n :: unit. NaN)
          \<lparr>inputRange = [Fin 5, Fin 5], outputRange = Numeric (NumberArray [Fin 1, Fin 2]),
           easing = None, extrapolate = Some ''clamp'', extrapolateLeft = None, extrapolateRight = None\<rparr>
          (VNum (Fin 6)) = Inr (VNum (Fin 2))"
  using degenerate_segment_shortcuts [where input = "Fin 6" and inputMin = "Fin 5" and inputMax = "Fin 5"
      and outputMin = "Fin 1" and outputMax = "Fin 2" and easingFn = linear_easing
      and el = "''extend''" and er = "''clamp''" and result = "Fin 5" and e = "Some ''clamp''"
      and x = 6 and normalizeColor = "\<lambda>s. None" and getValue = "\<lambda>n :: unit. NaN"]
    degenerate_segment_shortcuts [where input = "Fin 6" and inputMin = "Fin 5" and inputMax = "Fin 7"
      and outputMin = "Fin 3" and outputMax = "Fin 3" and easingFn = linear_easing
      and el = "''extend''" and er = "''clamp''" and result = "Fin 6" and e = "Some ''clamp''"
      and x = 6 and normalizeColor = "\<lambda>s. None" and getValue = "\<lambda>n :: unit. NaN"]
  by (simp add: extrapolateStep_def strictEq_def gt_def)


section \<open>The two tiers\<close>

lemma findRangeIndex_loop_eq: "findRangeIndex_loop i x arr = findRange_loop i x arr"
proof (induction i x arr rule: findRange_loop.induct)
  case (1 i input arr)
  then show ?case
    by (subst findRangeIndex_loop.simps, subst findRange_loop.simps) simp
qed

lemma findRangeIndex_eq: "findRangeIndex x arr = findRange x arr"
  by (simp add: findRangeIndex_def findRange_def findRangeIndex_loop_eq)

lemma tiers_agree_on_proper_segment:
  assumes "a < b" "el \<in> {''identity'', ''clamp'', ''extend''}" "er \<in> {''identity'', ''clamp'', ''extend''}"
  shows "nativeInterpolate (Fin x) (Fin a) (Fin b) (Fin c) (Fin d) el er
         = Inr (interpolate (Fin x) (Fin a) (Fin b) (Fin c) (Fin d) linear_easing el er)"
  using assms
  by (auto simp add: nativeInterpolate_def extrapolateSwitch_def interpolate_def extrapolateStep_def
      mapSegment_def strictEq_def gt_def sub_def linear_easing_def Let_def field_simps)


text \<open>
  C1. The two tiers on the exported configuration \<open>inputRange = [5, 5]\<close>,
  \<open>outputRange = [1, 2]\<close>, both extrapolations \<open>extend\<close>, at the input \<open>5\<close>: the
  native tier has no shortcut for the zero-width segment and divides zero by zero,
  the scripting tier returns \<open>outputMin\<close>. On the segment \<open>[0, Infinity]\<close> with the
  outputs \<open>[0, 1]\<close> the native tier divides by infinity and returns \<open>0\<close> at the
  input \<open>2\<close>, the scripting tier returns \<open>2\<close>.
\<close>

theorem tiers_disagree_on_zero_width_segment:
  "nativeInterpolateRanges (Fin 5) [Fin 5, Fin 5] [Fin 1, Fin 2] None ''extend'' ''extend'' getNodeById
     = Inr NaN
   \<and> interpolationValue normalizeColor getValue
        \<lparr>inputRange = [Fin 5, Fin 5], outputRange = Numeric (NumberArray [Fin 1, Fin 2]),
         easing = None, extrapolate = None, extrapolateLeft = None, extrapolateRight = None\<rparr>
        (VNum (Fin 5)) = Inr (VNum (Fin 1))
   \<and> nativeInterpolateRanges (Fin 2) [Fin 0, PosInf] [Fin 0, Fin 1] None ''extend'' ''extend''
        getNodeById = Inr (Fin 0)
   \<and> interpolationValue normalizeColor getValue
        \<lparr>inputRange = [Fin 0, PosInf], outputRange = Numeric (NumberArray [Fin 0, Fin 1]),
         easing = None, extrapolate = None, extrapolateLeft = None, extrapolateRight = None\<rparr>
        (VNum (Fin 2)) = Inr (VNum (Fin 2))"
  by (simp add: mapper_eval nativeInterpolateRanges_def findRangeIndex_def findRangeIndex_loop.simps
      nativeInterpolate_def extrapolateSwitch_def)


section \<open>The export transformation\<close>

text \<open>
  C8. An entry that is neither a number, a string nor a node passes
  \<open>invariant(true, ...)\<close> and is exported as \<open>0\<close>: no error is raised.
\<close>

theorem incompatible_entry_exports_as_zero:
  "transformOutputRange getNativeTag [OOther, ONumber (Fin 1)] = Inr [Fin 0, Fin 1]"
  by (simp add: transformOutputRange_def)


lemma parse_deg: "parseFloat ''0deg'' = Fin 0" "parseFloat ''90deg'' = Fin 90"
  "parseFloat ''1.5'' = Fin 1.5"
  by (simp_all add: parse_eval)

lemma ends_deg: "endsWithDeg ''0deg''" "endsWithDeg ''90deg''" "\<not> endsWithDeg ''1.5''"
  by (simp_all add: endsWithDeg_def)

text \<open>
  C7. The export of an output range: a number goes through unchanged; a string
  ending in \<open>deg\<close> becomes its degrees times \<open>Math.PI / 180\<close>; any other string is
  parsed as it stands; a node becomes its native tag, and a node without one makes
  the whole export fail; an export that succeeds has one number for each entry.
  \<open>["0deg", "90deg"]\<close> exports as \<open>[0, Math.PI / 2]\<close>, which is the double that prints
  as \<open>1.5707963267948966\<close>.
\<close>

theorem export_transformation:
  "transformOutputValue getNativeTag (ONumber v) = Inr v
   \<and> (endsWithDeg s \<and> parseFloat s = Fin degrees \<longrightarrow>
        transformOutputValue getNativeTag (OString s) = Inr (Fin (degrees * Math_PI / 180)))
   \<and> (\<not> endsWithDeg s \<and> parseFloat s = Fin radians \<longrightarrow>
        transformOutputValue getNativeTag (OString s) = Inr (Fin radians))
   \<and> (getNativeTag n = Some (Fin tag) \<and> tag \<noteq> 0 \<longrightarrow>
        transformOutputValue getNativeTag (ONode n) = Inr (Fin tag))
   \<and> (getNativeTag n = None \<longrightarrow> transformOutputValue getNativeTag (ONode n) = Inl NoNativeTag)
   \<and> (ONode n \<in> set rng \<and> getNativeTag n = None \<longrightarrow>
        transformOutputRange getNativeTag rng = Inl NoNativeTag)
   \<and> (transformOutputRange getNativeTag rng = Inr ys \<longrightarrow>
        length ys = length rng
        \<and> (\<forall>i < length rng. transformOutputValue getNativeTag (rng ! i) = Inr (ys ! i)))
   \<and> transformOutputRange getNativeTag [OString ''0deg'', OString ''90deg'']
        = Inr [Fin 0, Fin (Math_PI / 2)]
   \<and> \<bar>Math_PI / 2 - 1.5707963267948966\<bar> < 1 / 2 ^ 53"
proof (intro conjI impI)
  assume h: "ONode n \<in> set rng \<and> getNativeTag n = None"
  have only: "\<forall>y \<in> set rng. \<forall>e2. transformOutputValue getNativeTag y = Inl e2 \<longrightarrow> e2 = NoNativeTag"
  proof (intro ballI allI impI)
    fix y e2 assume "transformOutputValue getNativeTag y = Inl e2"
    then show "e2 = NoNativeTag"
      by (cases y) (auto split: if_splits option.splits)
  qed
  from h have mem: "ONode n \<in> set rng" by simp
  from h have fx: "transformOutputValue getNativeTag (ONode n) = Inl NoNativeTag" by simp
  show "transformOutputRange getNativeTag rng = Inl NoNativeTag"
    unfolding transformOutputRange_def by (rule mapResult_Inl [where f = "transformOutputValue getNativeTag" and x = "ONode n",
          OF mem fx only])
next
  assume "transformOutputRange getNativeTag rng = Inr ys"
  then have both: "length ys = length rng
        \<and> (\<forall>i < length rng. transformOutputValue getNativeTag (rng ! i) = Inr (ys ! i))"
    unfolding transformOutputRange_def by (rule mapResult_Inr)
  from both show "length ys = length rng" by simp
  from both show "\<forall>i < length rng. transformOutputValue getNativeTag (rng ! i) = Inr (ys ! i)"
    by simp
next
  show "transformOutputRange getNativeTag [OString ''0deg'', OString ''90deg'']
        = Inr [Fin 0, Fin (Math_PI / 2)]"
    by (simp add: transformOutputRange_def parse_deg ends_deg orZero_def)
next
  show "\<bar>Math_PI / 2 - 1.5707963267948966\<bar> < 1 / 2 ^ 53"
    by (simp add: Math_PI_def)
next
  assume "endsWithDeg s \<and> parseFloat s = Fin degrees"
  then show "transformOutputValue getNativeTag (OString s) = Inr (Fin (degrees * Math_PI / 180))"
    by (simp add: orZero_def)
next
  assume "\<not> endsWithDeg s \<and> parseFloat s = Fin radians"
  then show "transformOutputValue getNativeTag (OString s) = Inr (Fin radians)"
    by (simp add: orZero_def)
qed simp_all

theorem export_transformation_witness:
  "endsWithDeg ''90deg'' \<and> parseFloat ''90deg'' = Fin 90
   \<and> transformOutputValue (\<lambda>n :: nat. None) (OString ''90deg'') = Inr (Fin (90 * Math_PI / 180))
   \<and> \<not> endsWithDeg ''1.5'' \<and> parseFloat ''1.5'' = Fin 1.5
   \<and> transformOutputValue (\<lambda>n :: nat. Some (Fin 3)) (OString ''1.5'') = Inr (Fin 1.5)
   \<and> ONode 7 \<in> set [ONumber (Fin 1), ONode (7 :: nat)]
   \<and> transformOutputRange (\<lambda>n :: nat. None) [ONumber (Fin 1), ONode 7] = Inl NoNativeTag
   \<and> transformOutputValue (\<lambda>n :: nat. Some (Fin 3)) (ONode 7) = Inr (Fin 3)
   \<and> transformOutputRange (\<lambda>n :: nat. Some (Fin 3)) [ONumber (Fin 1), ONode 7] = Inr [Fin 1, Fin 3]
   \<and> length [Fin 1, Fin 3 :: number] = length [ONumber (Fin 1), ONode (7 :: nat)]"
  using export_transformation [where s = "''90deg''" and degrees = 90
      and getNativeTag = "\<lambda>n :: nat. None" and n = 7 and rng = "[ONumber (Fin 1), ONode 7]"]
    export_transformation [where s = "''1.5''" and radians = "1.5"
      and getNativeTag = "\<lambda>n :: nat. Some (Fin 3)" and n = 7 and tag = 3
      and rng = "[ONumber (Fin 1), ONode 7]" and ys = "[Fin 1, Fin 3]"]
  by (simp add: parse_deg ends_deg transformOutputRange_def)


section \<open>Promotion\<close>

lemma constructNative_cases:
  "constructNative i c = c \<and> i \<in> set c \<or> constructNative i c = c @ [i] \<and> i \<notin> set c"
  by (simp add: constructNative_def)

lemma makeNative_extends:
  "\<exists>ext. makeNative n c = c @ ext"
  "\<exists>ext. makeNativeEach es c = c @ ext"
proof (induction n c and es c rule: makeNative_makeNativeEach.induct)
  case (1 i created)
  then show ?case by (simp add: constructNative_def)
next
  case (2 i parent outRange created)
  then obtain e1 e2 where "makeNative parent created = created @ e1"
    "makeNativeEach outRange (makeNative parent created) = makeNative parent created @ e2"
    by blast
  then show ?case by (simp add: constructNative_def)
next
  case (4 v rest created)
  then obtain e1 e2 where "makeNative v created = created @ e1"
    "makeNativeEach rest (makeNative v created) = makeNative v created @ e2"
    by blast
  then show ?case by simp
qed simp_all

lemma makeNative_mono:
  "set c \<subseteq> set (makeNative n c)" "set c \<subseteq> set (makeNativeEach es c)"
  using makeNative_extends(1) [of n c] makeNative_extends(2) [of es c] by auto

lemma makeNative_distinct:
  "distinct c \<Longrightarrow> distinct (makeNative n c)"
  "distinct c \<Longrightarrow> distinct (makeNativeEach es c)"
  by (induction n c and es c rule: makeNative_makeNativeEach.induct)
     (simp_all add: constructNative_def)

lemma makeNative_promotes:
  "\<forall>m \<in> set (subnodes n). nodeId m \<in> set (makeNative n c)"
  "\<forall>m \<in> set (subnodesEach es). nodeId m \<in> set (makeNativeEach es c)"
proof (induction n c and es c rule: makeNative_makeNativeEach.induct)
  case (1 i created)
  then show ?case by (simp add: constructNative_def)
next
  case (2 i parent outRange created)
  let ?c1 = "makeNative parent created"
  let ?c2 = "makeNativeEach outRange ?c1"
  have "set ?c1 \<subseteq> set ?c2" by (rule makeNative_mono)
  with 2 have "\<forall>m \<in> set (subnodes parent) \<union> set (subnodesEach outRange). nodeId m \<in> set ?c2"
    by blast
  then show ?case by (auto simp add: constructNative_def)
next
  case (4 v rest created)
  have "set (makeNative v created) \<subseteq> set (makeNativeEach rest (makeNative v created))"
    by (rule makeNative_mono)
  with 4 show ?case by auto
qed simp_all

lemma subnodes_self: "n \<in> set (subnodes n)"
  by (cases n) simp_all

lemma nodeEntries_subnodes: "d \<in> set (nodeEntries es) \<Longrightarrow> d \<in> set (subnodesEach es)"
  by (induction es rule: nodeEntries.induct) (auto simp: subnodes_self)

lemma before_append: "before a b xs \<Longrightarrow> before a b (xs @ ys)"
proof -
  assume h: "before a b xs"
  then have "b \<in> set xs" by (simp add: before_def)
  then have "takeWhile (\<lambda>x. x \<noteq> b) (xs @ ys) = takeWhile (\<lambda>x. x \<noteq> b) xs"
    by (intro takeWhile_append1 [of b]) simp_all
  with h show ?thesis by (simp add: before_def)
qed

lemma before_last: "b \<notin> set xs \<Longrightarrow> a \<in> set xs \<Longrightarrow> before a b (xs @ [b])"
proof -
  assume h: "b \<notin> set xs" "a \<in> set xs"
  then have "takeWhile (\<lambda>x. x \<noteq> b) (xs @ [b]) = xs @ takeWhile (\<lambda>x. x \<noteq> b) [b]"
    by (intro takeWhile_append2) auto
  with h show ?thesis by (simp add: before_def)
qed

lemma ordered_construct:
  assumes "ordered U c" and "n \<in> U"
    and "\<forall>a \<in> U. nodeId a = nodeId n \<longrightarrow> a = n"
    and "\<forall>d \<in> set (dependencies n). nodeId d \<in> set c"
  shows "ordered U (constructNative (nodeId n) c)"
proof (cases "nodeId n \<in> set c")
  case True
  with assms(1) show ?thesis by (simp add: constructNative_def)
next
  case False
  show ?thesis
    unfolding ordered_def
  proof (intro ballI impI)
    fix m d
    assume m: "m \<in> U" and mc: "nodeId m \<in> set (constructNative (nodeId n) c)"
      and d: "d \<in> set (dependencies m)"
    show "before (nodeId d) (nodeId m) (constructNative (nodeId n) c)"
    proof (cases "nodeId m \<in> set c")
      case True
      with assms(1) m d have "before (nodeId d) (nodeId m) c" by (auto simp: ordered_def)
      with False show ?thesis by (simp add: constructNative_def before_append)
    next
      case notin: False
      with mc False have "nodeId m = nodeId n" by (simp add: constructNative_def)
      with assms(3) m have "m = n" by blast
      with d assms(4) have "nodeId d \<in> set c" by blast
      with False \<open>m = n\<close> show ?thesis by (simp add: constructNative_def before_last)
    qed
  qed
qed

lemma makeNative_ordered:
  "ordered U c \<Longrightarrow> set (subnodes n) \<subseteq> U
     \<Longrightarrow> \<forall>a \<in> U. \<forall>b \<in> U. nodeId a = nodeId b \<longrightarrow> a = b
     \<Longrightarrow> ordered U (makeNative n c)"
  "ordered U c \<Longrightarrow> set (subnodesEach es) \<subseteq> U
     \<Longrightarrow> \<forall>a \<in> U. \<forall>b \<in> U. nodeId a = nodeId b \<longrightarrow> a = b
     \<Longrightarrow> ordered U (makeNativeEach es c)"
proof (induction n c and es c rule: makeNative_makeNativeEach.induct)
  case (1 i created)
  have "ordered U (constructNative (nodeId (AnimatedValue i)) created)"
  proof (rule ordered_construct)
    show "ordered U created" by fact
    show "AnimatedValue i \<in> U" using 1(2) by simp
    show "\<forall>a \<in> U. nodeId a = nodeId (AnimatedValue i) \<longrightarrow> a = AnimatedValue i"
      using 1(2,3) by simp
    show "\<forall>d \<in> set (dependencies (AnimatedValue i)). nodeId d \<in> set created" by simp
  qed
  then show ?case by simp
next
  case (2 i parent outRange created)
  let ?n = "AnimatedInterpolation i parent outRange"
  let ?c1 = "makeNative parent created"
  let ?c2 = "makeNativeEach outRange ?c1"
  from 2(4) have sub: "set (subnodes parent) \<subseteq> U" "set (subnodesEach outRange) \<subseteq> U" "?n \<in> U"
    by auto
  from 2(1) [OF 2(3) sub(1) 2(5)] have o1: "ordered U ?c1" .
  from 2(2) [OF o1 sub(2) 2(5)] have o2: "ordered U ?c2" .
  have "ordered U (constructNative (nodeId ?n) ?c2)"
  proof (rule ordered_construct)
    show "ordered U ?c2" by fact
    show "?n \<in> U" by fact
    show "\<forall>a \<in> U. nodeId a = nodeId ?n \<longrightarrow> a = ?n" using sub(3) 2(5) by blast
    show "\<forall>d \<in> set (dependencies ?n). nodeId d \<in> set ?c2"
    proof
      fix d assume "d \<in> set (dependencies ?n)"
      then consider "d = parent" | "d \<in> set (nodeEntries outRange)" by auto
      then show "nodeId d \<in> set ?c2"
      proof cases
        case 1
        have "nodeId parent \<in> set ?c1" using makeNative_promotes(1) [of parent created] subnodes_self by blast
        with 1 makeNative_mono(2) [of ?c1 outRange] show ?thesis by blast
      next
        case 2
        then have "d \<in> set (subnodesEach outRange)" by (rule nodeEntries_subnodes)
        with makeNative_promotes(2) [of outRange ?c1] show ?thesis by blast
      qed
    qed
  qed
  then show ?case by simp
next
  case (4 v rest created)
  from 4(4) have sub: "set (subnodes v) \<subseteq> U" "set (subnodesEach rest) \<subseteq> U" by auto
  from 4(1) [OF 4(3) sub(1) 4(5)] have "ordered U (makeNative v created)" .
  from 4(2) [OF this sub(2) 4(5)] show ?case by simp
qed simp_all

lemma makeNative_idem:
  "\<forall>m \<in> set (subnodes n). nodeId m \<in> set c \<Longrightarrow> makeNative n c = c"
  "\<forall>m \<in> set (subnodesEach es). nodeId m \<in> set c \<Longrightarrow> makeNativeEach es c = c"
  by (induction n c and es c rule: makeNative_makeNativeEach.induct)
     (simp_all add: constructNative_def)

lemma makeNative_keeps:
  "take (length c) (makeNative n c) = c"
  using makeNative_extends(1) [of n c] by auto

text \<open>
  C9. Promoting a node from the state in which nothing is promoted constructs the
  counterpart of every node it depends on, each exactly once, and that of a node
  only after those of its parent and of the nodes of its output range; promoting
  again constructs nothing. From any state, the counterparts that exist stay as
  they are and none is constructed twice. Nodes are told apart by their identity.
\<close>

theorem promotion_order:
  "(uniqueIds n \<longrightarrow>
     distinct (makeNative n [])
     \<and> (\<forall>m \<in> set (subnodes n).
           nodeId m \<in> set (makeNative n [])
           \<and> (\<forall>d \<in> set (dependencies m). before (nodeId d) (nodeId m) (makeNative n [])))
     \<and> makeNative n (makeNative n []) = makeNative n [])
   \<and> (distinct created \<longrightarrow>
         distinct (makeNative n created)
         \<and> take (length created) (makeNative n created) = created)"
proof (intro impI conjI ballI)
  show "distinct (makeNative n [])" by (simp add: makeNative_distinct)
next
  fix m assume "m \<in> set (subnodes n)"
  with makeNative_promotes(1) [of n "[]"] show "nodeId m \<in> set (makeNative n [])" by blast
next
  fix m d assume u: "uniqueIds n" and m: "m \<in> set (subnodes n)" and d: "d \<in> set (dependencies m)"
  have "ordered (set (subnodes n)) []" by (simp add: ordered_def)
  from makeNative_ordered(1) [OF this] u have "ordered (set (subnodes n)) (makeNative n [])"
    by (simp add: uniqueIds_def)
  with m d makeNative_promotes(1) [of n "[]"]
  show "before (nodeId d) (nodeId m) (makeNative n [])"
    by (auto simp: ordered_def)
next
  show "makeNative n (makeNative n []) = makeNative n []"
    by (rule makeNative_idem) (rule makeNative_promotes)
next
  assume "distinct created"
  then show "distinct (makeNative n created)" by (rule makeNative_distinct)
next
  show "take (length created) (makeNative n created) = created" by (rule makeNative_keeps)
qed

theorem promotion_order_witness:
  "uniqueIds (AnimatedInterpolation 4 (AnimatedValue 1)
       [ONode (AnimatedInterpolation 2 (AnimatedValue 1) [ONumber (Fin 0), ONumber (Fin 1)]),
        ONode (AnimatedInterpolation 3 (AnimatedValue 1) [ONumber (Fin 0), ONumber (Fin 1)])])
   \<and> makeNative (AnimatedInterpolation 4 (AnimatedValue 1)
       [ONode (AnimatedInterpolation 2 (AnimatedValue 1) [ONumber (Fin 0), ONumber (Fin 1)]),
        ONode (AnimatedInterpolation 3 (AnimatedValue 1) [ONumber (Fin 0), ONumber (Fin 1)])]) []
       = [1, 2, 3, 4]
   \<and> distinct [1, 2, 3, 4 :: nat]
   \<and> before 1 4 [1, 2, 3, 4 :: nat] \<and> before 2 4 [1, 2, 3, 4 :: nat]
   \<and> before 3 4 [1, 2, 3, 4 :: nat] \<and> before 1 2 [1, 2, 3, 4 :: nat]
   \<and> before 1 3 [1, 2, 3, 4 :: nat]
   \<and> distinct [1, 3 :: nat]
   \<and> makeNative (AnimatedInterpolation 4 (AnimatedValue 1)
       [ONode (AnimatedInterpolation 2 (AnimatedValue 1) [ONumber (Fin 0), ONumber (Fin 1)]),
        ONode (AnimatedInterpolation 3 (AnimatedValue 1) [ONumber (Fin 0), ONumber (Fin 1)])]) [1, 3]
       = [1, 3, 2, 4]"
  using promotion_order [of "AnimatedInterpolation 4 (AnimatedValue 1)
       [ONode (AnimatedInterpolation 2 (AnimatedValue 1) [ONumber (Fin 0), ONumber (Fin 1)]),
        ONode (AnimatedInterpolation 3 (AnimatedValue 1) [ONumber (Fin 0), ONumber (Fin 1)])]"
      "[1, 3]"]
  by (simp add: uniqueIds_def constructNative_def before_def)


section \<open>Mappers that have been constructed\<close>

lemma checkInfiniteRange_None: "checkInfiniteRange arr = None \<Longrightarrow> 2 \<le> length arr"
  by (simp add: checkInfiniteRange_def split: if_splits)

lemma createNumericInterpolation_Inr:
  assumes "createNumericInterpolation getValue config outRange = Inr f"
  shows "checkInfiniteOutputRange outRange = None"
    and "checkInfiniteRange (inputRange config) = None"
    and "checkValidInputRange (inputRange config) = None"
    and "length (inputRange config) = rangeLength outRange"
    and "f = numericMapper getValue (inputRange config) outRange
               (case easing config of Some f \<Rightarrow> f | None \<Rightarrow> linear_easing)
               (resolveExtrapolate (extrapolateLeft config) (extrapolate config))
               (resolveExtrapolate (extrapolateRight config) (extrapolate config))"
  using assms unfolding createNumericInterpolation_def
  by (auto split: option.splits if_splits)

lemma outputValueAt_Some:
  "i < rangeLength outRange \<Longrightarrow> \<exists>v. outputValueAt getValue outRange i = Some v"
  by (cases outRange) (simp_all add: lookup_def)

lemma numericMapper_total:
  assumes "2 \<le> length inRange" "length inRange = rangeLength outRange"
  shows "\<exists>outputStart outputEnd.
           outputValueAt getValue outRange (findRange x inRange) = Some outputStart
         \<and> outputValueAt getValue outRange (findRange x inRange + 1) = Some outputEnd
         \<and> numericMapper getValue inRange outRange easingFn el er (VNum x)
             = Inr (interpolate x (inRange ! findRange x inRange) (inRange ! (findRange x inRange + 1))
                      outputStart outputEnd easingFn el er)"
proof -
  let ?k = "findRange x inRange"
  from findRange_in_range [OF assms(1), of x] have k: "?k + 1 < length inRange" .
  with assms(2) outputValueAt_Some [of ?k outRange getValue]
    outputValueAt_Some [of "?k + 1" outRange getValue]
  obtain a b where a: "outputValueAt getValue outRange ?k = Some a"
    and b: "outputValueAt getValue outRange (?k + 1) = Some b"
    by auto
  from k have "lookup inRange ?k = Some (inRange ! ?k)"
    "lookup inRange (?k + 1) = Some (inRange ! (?k + 1))"
    by (simp_all add: lookup_def)
  with a b show ?thesis
    by (simp add: numericMapper_def Let_def)
qed


section \<open>The columns of a string output range\<close>

lemma pushNumbers_nth:
  "pushNumbers ors i ms = Inr ors2 \<Longrightarrow>
   length ors2 = length ors \<and> (ms \<noteq> [] \<longrightarrow> i + length ms \<le> length ors)
   \<and> (\<forall>j < length ors. ors2 ! j =
          ors ! j @ (if i \<le> j \<and> j < i + length ms then [toNumber (ms ! (j - i))] else []))"
proof (induction ms arbitrary: ors i)
  case Nil
  then show ?case by simp
next
  case (Cons m ms)
  from Cons.prems have i: "i < length ors"
    and rec: "pushNumbers (ors[i := ors ! i @ [toNumber m]]) (i + 1) ms = Inr ors2"
    by (auto split: if_splits)
  from Cons.IH [OF rec] have len: "length ors2 = length ors"
    and bound: "ms \<noteq> [] \<longrightarrow> i + 1 + length ms \<le> length ors"
    and nth: "\<forall>j < length ors. ors2 ! j = (ors[i := ors ! i @ [toNumber m]]) ! j @
        (if i + 1 \<le> j \<and> j < i + 1 + length ms then [toNumber (ms ! (j - (i + 1)))] else [])"
    by simp_all
  have "\<forall>j < length ors. ors2 ! j =
          ors ! j @ (if i \<le> j \<and> j < i + length (m # ms) then [toNumber ((m # ms) ! (j - i))] else [])"
  proof (intro allI impI)
    fix j assume j: "j < length ors"
    show "ors2 ! j =
          ors ! j @ (if i \<le> j \<and> j < i + length (m # ms) then [toNumber ((m # ms) ! (j - i))] else [])"
    proof (cases "j = i")
      case True
      with nth j show ?thesis by simp
    next
      case False
      have "i < j \<Longrightarrow> (m # ms) ! (j - i) = ms ! (j - (i + 1))"
      proof -
        assume "i < j"
        then have "j - i = Suc (j - (i + 1))" by simp
        then show ?thesis by (simp only: nth_Cons_Suc)
      qed
      with False nth j show ?thesis by auto
    qed
  qed
  with len bound i show ?case by auto
qed

lemma pushNumbers_zero:
  assumes "pushNumbers ors 0 ms = Inr ors2"
  shows "length ors2 = length ors" "length ms \<le> length ors"
    "\<forall>j < length ors. ors2 ! j = ors ! j @ (case lookup ms j of Some m \<Rightarrow> [toNumber m] | None \<Rightarrow> [])"
  using pushNumbers_nth [OF assms] by (auto simp: lookup_def)

lemma collectOutputRanges_nth:
  "collectOutputRanges ors vs = Inr ors2 \<Longrightarrow>
   length ors2 = length ors
   \<and> (\<forall>v \<in> set vs. matchesIn v \<noteq> [] \<and> length (matchesIn v) \<le> length ors)
   \<and> (\<forall>j < length ors. ors2 ! j = ors ! j @ columnOf vs j)"
proof (induction vs arbitrary: ors)
  case Nil
  then show ?case by (simp add: columnOf_def)
next
  case (Cons v vs)
  from Cons.prems obtain ms ors1 where ms: "matchShape v = Some ms"
    and push: "pushNumbers ors 0 ms = Inr ors1"
    and rec: "collectOutputRanges ors1 vs = Inr ors2"
    by (auto split: option.splits sum.splits)
  from ms have msv: "matchesIn v = ms" "ms \<noteq> []"
    by (auto simp: matchShape_def matchesIn_def Let_def split: if_splits)
  from pushNumbers_zero [OF push] have l1: "length ors1 = length ors"
    and b1: "length ms \<le> length ors"
    and n1: "\<forall>j < length ors. ors1 ! j = ors ! j @ (case lookup ms j of Some m \<Rightarrow> [toNumber m] | None \<Rightarrow> [])"
    by simp_all
  from Cons.IH [OF rec] l1 have l2: "length ors2 = length ors"
    and b2: "\<forall>v \<in> set vs. matchesIn v \<noteq> [] \<and> length (matchesIn v) \<le> length ors"
    and n2: "\<forall>j < length ors. ors2 ! j = ors1 ! j @ columnOf vs j"
    by simp_all
  from n1 n2 msv have "\<forall>j < length ors. ors2 ! j = ors ! j @ columnOf (v # vs) j"
    by (simp add: columnOf_def)
  with l2 b2 b1 msv show ?case by simp
qed

lemma columnOf_length: "length (columnOf vs j) \<le> length vs"
  by (induction vs) (auto simp: columnOf_def split: option.splits)

lemma columnOf_full:
  "length (columnOf vs j) = length vs \<Longrightarrow>
   (\<forall>v \<in> set vs. j < length (matchesIn v)) \<and> columnOf vs j = channelColumn vs j"
proof (induction vs)
  case Nil
  then show ?case by (simp add: columnOf_def channelColumn_def)
next
  case (Cons v vs)
  have split: "columnOf (v # vs) j =
     (case lookup (matchesIn v) j of Some m \<Rightarrow> [toNumber m] | None \<Rightarrow> []) @ columnOf vs j"
    by (simp add: columnOf_def)
  have le: "length (columnOf vs j) \<le> length vs" by (rule columnOf_length)
  with Cons.prems split have j: "j < length (matchesIn v)" and full: "length (columnOf vs j) = length vs"
    by (auto simp: lookup_def split: if_splits)
  from Cons.IH [OF full] j split show ?case
    by (simp add: lookup_def channelColumn_def)
qed

lemma columnOf_first:
  "\<forall>v \<in> set vs. matchesIn v \<noteq> [] \<Longrightarrow> length (columnOf vs 0) = length vs"
  by (induction vs) (auto simp: columnOf_def lookup_def)


lemma replaceShapeWith_fill:
  "length vs = length (matchesOf ps) \<Longrightarrow> \<forall>j < length vs. callback (i + j) = Inr (vs ! j) \<Longrightarrow>
   replaceShapeWith callback i ps = Inr (fillTemplate ps vs)"
proof (induction ps arbitrary: i vs)
  case Nil
  then show ?case by simp
next
  case (Cons p ps)
  show ?case
  proof (cases p)
    case (Literal c)
    with Cons.prems Cons.IH [of vs i] show ?thesis by simp
  next
    case (Match m)
    with Cons.prems(1) obtain v vs2 where vs: "vs = v # vs2" and len: "length vs2 = length (matchesOf ps)"
      by (cases vs) auto
    from Cons.prems(2) vs have first: "callback i = Inr v" by auto
    have "\<forall>j < length vs2. callback (i + 1 + j) = Inr (vs2 ! j)"
    proof (intro allI impI)
      fix j assume "j < length vs2"
      with Cons.prems(2) [rule_format, of "Suc j"] vs show "callback (i + 1 + j) = Inr (vs2 ! j)"
        by simp
    qed
    from Cons.IH [OF len this] first Match vs show ?thesis by simp
  qed
qed

lemma numericMapper_column:
  assumes "2 \<le> length inRange" "length inRange = length column"
  shows "numericMapper getValue inRange (NumberArray column) easingFn el er (VNum x)
         = Inr (interpolate x (inRange ! findRange x inRange) (inRange ! (findRange x inRange + 1))
                  (column ! findRange x inRange) (column ! (findRange x inRange + 1)) easingFn el er)"
proof -
  from findRange_in_range [OF assms(1), of x] have k: "findRange x inRange + 1 < length inRange" .
  with assms(2) show ?thesis
    by (simp add: numericMapper_def lookup_def Let_def)
qed

lemma stringInterpolation_Inr:
  assumes ok: "createInterpolationFromStringOutputRange normalizeColor getValue config strs = Inr f"
  defines "templates \<equiv> map (colorToRgba normalizeColor) strs"
  shows "2 \<le> length strs"
    and "checkPattern templates = None"
    and "0 < length (matchesIn (templates ! 0))"
    and "\<forall>t \<in> set templates. length (matchesIn t) = length (matchesIn (templates ! 0))"
    and "length (inputRange config) = length strs"
    and "checkInfiniteRange (inputRange config) = None"
    and "checkValidInputRange (inputRange config) = None"
    and "\<exists>interpolations.
           length interpolations = length (matchesIn (templates ! 0))
         \<and> (\<forall>j < length interpolations.
               createNumericInterpolation getValue config (NumberArray (channelColumn templates j))
                 = Inr (interpolations ! j))
         \<and> f = stringMapper (templates ! 0) interpolations (isRgbOrRgba (templates ! 0))"
proof -
  from ok show len: "2 \<le> length strs"
    by (simp add: createInterpolationFromStringOutputRange_def split: if_splits)
  with ok obtain ms0 ors interps where
    pat: "checkPattern templates = None"
    and ms0: "matchShape (templates ! 0) = Some ms0"
    and coll: "collectOutputRanges (map (\<lambda>m. []) ms0) templates = Inr ors"
    and maps: "mapResult (\<lambda>column. createNumericInterpolation getValue config (NumberArray column)) ors
               = Inr interps"
    and f: "f = stringMapper (templates ! 0) interps (isRgbOrRgba (templates ! 0))"
    unfolding createInterpolationFromStringOutputRange_def templates_def Let_def
    by (auto split: if_splits option.splits sum.splits)
  show "checkPattern templates = None" by fact
  let ?n = "length (matchesIn (templates ! 0))"
  from ms0 have n: "matchesIn (templates ! 0) = ms0" "ms0 \<noteq> []"
    by (auto simp: matchShape_def matchesIn_def Let_def split: if_splits)
  then show pos: "0 < ?n" by simp
  from collectOutputRanges_nth [OF coll] n
  have lors: "length ors = ?n"
    and each: "\<forall>v \<in> set templates. matchesIn v \<noteq> [] \<and> length (matchesIn v) \<le> ?n"
    and cols: "\<forall>j < ?n. ors ! j = columnOf templates j"
    by simp_all
  from mapResult_Inr [OF maps] lors
  have lint: "length interps = ?n"
    and made: "\<forall>j < ?n. createNumericInterpolation getValue config (NumberArray (ors ! j))
                 = Inr (interps ! j)"
    by simp_all
  have collen: "\<forall>j < ?n. length (columnOf templates j) = length (inputRange config)"
  proof (intro allI impI)
    fix j assume j: "j < ?n"
    with made have "createNumericInterpolation getValue config (NumberArray (ors ! j))
                 = Inr (interps ! j)" by blast
    from createNumericInterpolation_Inr(4) [OF this] cols j
    show "length (columnOf templates j) = length (inputRange config)" by simp
  qed
  from each have "length (columnOf templates 0) = length templates"
    by (intro columnOf_first) blast
  with collen pos show inlen: "length (inputRange config) = length strs"
    by (simp add: templates_def)
  from made pos have first: "createNumericInterpolation getValue config (NumberArray (ors ! 0))
                 = Inr (interps ! 0)" by blast
  from createNumericInterpolation_Inr(2) [OF first]
  show "checkInfiniteRange (inputRange config) = None" .
  from createNumericInterpolation_Inr(3) [OF first]
  show "checkValidInputRange (inputRange config) = None" .
  have full: "\<forall>j < ?n. (\<forall>v \<in> set templates. j < length (matchesIn v))
                        \<and> columnOf templates j = channelColumn templates j"
  proof (intro allI impI)
    fix j assume "j < ?n"
    with collen inlen have "length (columnOf templates j) = length templates"
      by (simp add: templates_def)
    then show "(\<forall>v \<in> set templates. j < length (matchesIn v))
                        \<and> columnOf templates j = channelColumn templates j"
      by (rule columnOf_full)
  qed
  show "\<forall>t \<in> set templates. length (matchesIn t) = ?n"
  proof
    fix t assume t: "t \<in> set templates"
    with each have le: "length (matchesIn t) \<le> ?n" by blast
    from pos full t have "?n - 1 < length (matchesIn t)" by simp
    with le show "length (matchesIn t) = ?n" by simp
  qed
  from made cols full lint
  have "\<forall>j < length interps.
               createNumericInterpolation getValue config (NumberArray (channelColumn templates j))
                 = Inr (interps ! j)"
    by simp
  with lint f
  show "\<exists>interpolations.
           length interpolations = ?n
         \<and> (\<forall>j < length interpolations.
               createNumericInterpolation getValue config (NumberArray (channelColumn templates j))
                 = Inr (interpolations ! j))
         \<and> f = stringMapper (templates ! 0) interpolations (isRgbOrRgba (templates ! 0))"
    by blast
qed


lemma stringMapper_value:
  assumes ok: "createInterpolationFromStringOutputRange normalizeColor getValue config strs = Inr f"
  shows "f (VNum x) = Inr (patternValue config (map (colorToRgba normalizeColor) strs) x)"
proof -
  let ?templates = "map (colorToRgba normalizeColor) strs"
  let ?template = "?templates ! 0"
  let ?n = "length (matchesIn ?template)"
  let ?rgb = "isRgbOrRgba ?template"
  let ?vs = "map (\<lambda>i. formatValue ?rgb i (rangeMap config (channelColumn ?templates i) x)) [0 ..< ?n]"
  from stringInterpolation_Inr(8) [OF ok] obtain interps where
    lint: "length interps = ?n"
    and made: "\<forall>j < length interps.
       createNumericInterpolation getValue config (NumberArray (channelColumn ?templates j))
         = Inr (interps ! j)"
    and f: "f = stringMapper ?template interps ?rgb"
    by blast
  from checkInfiniteRange_None [OF stringInterpolation_Inr(6) [OF ok]]
  have two: "2 \<le> length (inputRange config)" .
  have collen: "\<And>j. length (inputRange config) = length (channelColumn ?templates j)"
    using stringInterpolation_Inr(5) [OF ok] by (simp add: channelColumn_def)
  have each: "\<forall>j < length ?vs. formatChannel interps ?rgb (VNum x) (0 + j) = Inr (?vs ! j)"
  proof (intro allI impI)
    fix j assume "j < length ?vs"
    then have j: "j < ?n" by simp
    with made lint
    have "createNumericInterpolation getValue config (NumberArray (channelColumn ?templates j))
         = Inr (interps ! j)" by simp
    from createNumericInterpolation_Inr(5) [OF this]
    have "(interps ! j) (VNum x) = Inr (rangeMap config (channelColumn ?templates j) x)"
      by (simp add: numericMapper_column [OF two collen] rangeMap_def Let_def)
    moreover from j lint have "lookup interps j = Some (interps ! j)" by (simp add: lookup_def)
    moreover have "(j + 1 < 4) = (j < 3)" by auto
    ultimately show "formatChannel interps ?rgb (VNum x) (0 + j) = Inr (?vs ! j)"
      using j by (simp add: formatChannel_def formatValue_def Let_def)
  qed
  have "length ?vs = length (matchesOf (pieces ?template))" by (simp add: matchesIn_def)
  from replaceShapeWith_fill [OF this each] f show ?thesis
    by (simp add: stringMapper_def patternValue_def Let_def)
qed

lemma createInterpolation_total:
  assumes "createInterpolation normalizeColor getValue config = Inr f"
  shows "\<exists>y. f (VNum x) = Inr y"
proof (cases "outputRange config")
  case (Numeric outRange)
  with assms obtain g where g: "createNumericInterpolation getValue config outRange = Inr g"
    and f: "f = (\<lambda>input. case g input of Inl e \<Rightarrow> Inl e | Inr r \<Rightarrow> Inr (VNum r))"
    by (auto simp: createInterpolation_def split: sum.splits)
  from createNumericInterpolation_Inr [OF g] checkInfiniteRange_None
    numericMapper_total [of "inputRange config" outRange getValue x]
  obtain r where "g (VNum x) = Inr r" by metis
  with f show ?thesis by simp
next
  case (Strings strs)
  show ?thesis
  proof (cases strs)
    case Nil
    with Strings assms obtain g where
      "createNumericInterpolation getValue config (NumberArray []) = Inr g"
      by (auto simp: createInterpolation_def split: sum.splits)
    from createNumericInterpolation_Inr(1) [OF this] show ?thesis
      by (simp add: checkInfiniteRange_def)
  next
    case (Cons s ss)
    with Strings assms obtain g where
      g: "createInterpolationFromStringOutputRange normalizeColor getValue config strs = Inr g"
      and f: "f = (\<lambda>input. case g input of Inl e \<Rightarrow> Inl e | Inr r \<Rightarrow> Inr (VStr r))"
      by (auto simp: createInterpolation_def split: sum.splits)
    from stringMapper_value [OF g, of x] f show ?thesis by simp
  qed
qed

section \<open>Totality of evaluation\<close>

text \<open>
  C10. For every input, \<open>NaN\<close> and the infinities included, and every input range
  of at least two entries, \<open>findRange\<close> returns an index \<open>i\<close> with \<open>i + 1\<close> inside
  the range, that is \<open>0 <= i <= n - 2\<close>; a mapper that has been constructed returns
  a value on every number, without a read past the end of an array.
\<close>

theorem segment_index_in_bounds:
  "(2 \<le> length arr \<longrightarrow> findRange x arr + 1 < length arr \<and> findRange x arr \<le> length arr - 2)
   \<and> (createInterpolation normalizeColor getValue config = Inr f \<longrightarrow> (\<exists>y. f (VNum x) = Inr y))"
proof (intro conjI impI)
  assume "2 \<le> length arr"
  from findRange_in_range [OF this, of x]
  show "findRange x arr + 1 < length arr" "findRange x arr \<le> length arr - 2" by simp_all
next
  assume "createInterpolation normalizeColor getValue config = Inr f"
  then show "\<exists>y. f (VNum x) = Inr y" by (rule createInterpolation_total)
qed


theorem segment_index_in_bounds_witness:
  "2 \<le> length [Fin 0, Fin 1, Fin 2]
   \<and> findRange NaN [Fin 0, Fin 1, Fin 2] + 1 < length [Fin 0, Fin 1, Fin 2]
   \<and> createInterpolation (\<lambda>s. None) (\<lambda>n :: unit. NaN)
        \<lparr>inputRange = [Fin 0, Fin 1], outputRange = Numeric (NumberArray [Fin 0, Fin 10]),
         easing = None, extrapolate = None, extrapolateLeft = None, extrapolateRight = None\<rparr>
       = Inr (\<lambda>input. case numericMapper (\<lambda>n :: unit. NaN) [Fin 0, Fin 1] (NumberArray [Fin 0, Fin 10])
                             linear_easing ''extend'' ''extend'' input of
                      Inl e \<Rightarrow> Inl e | Inr r \<Rightarrow> Inr (VNum r))
   \<and> (\<exists>y. (case numericMapper (\<lambda>n :: unit. NaN) [Fin 0, Fin 1] (NumberArray [Fin 0, Fin 10])
                   linear_easing ''extend'' ''extend'' (VNum PosInf) of
              Inl e \<Rightarrow> Inl e | Inr r \<Rightarrow> Inr (VNum r)) = Inr y)"
  using segment_index_in_bounds [where arr = "[Fin 0, Fin 1, Fin 2]" and x = NaN
      and normalizeColor = "\<lambda>s. None" and getValue = "\<lambda>n :: unit. NaN"
      and config = "\<lparr>inputRange = [Fin 0, Fin 1], outputRange = Numeric (NumberArray [Fin 0, Fin 10]),
         easing = None, extrapolate = None, extrapolateLeft = None, extrapolateRight = None\<rparr>"
      and f = "\<lambda>input. case numericMapper (\<lambda>n :: unit. NaN) [Fin 0, Fin 1] (NumberArray [Fin 0, Fin 10])
                             linear_easing ''extend'' ''extend'' input of
                      Inl e \<Rightarrow> Inl e | Inr r \<Rightarrow> Inr (VNum r)"]
    segment_index_in_bounds [where arr = "[Fin 0, Fin 1, Fin 2]" and x = PosInf
      and normalizeColor = "\<lambda>s. None" and getValue = "\<lambda>n :: unit. NaN"
      and config = "\<lparr>inputRange = [Fin 0, Fin 1], outputRange = Numeric (NumberArray [Fin 0, Fin 10]),
         easing = None, extrapolate = None, extrapolateLeft = None, extrapolateRight = None\<rparr>"
      and f = "\<lambda>input. case numericMapper (\<lambda>n :: unit. NaN) [Fin 0, Fin 1] (NumberArray [Fin 0, Fin 10])
                             linear_easing ''extend'' ''extend'' input of
                      Inl e \<Rightarrow> Inl e | Inr r \<Rightarrow> Inr (VNum r)"]
  by (simp add: createInterpolation_def createNumericInterpolation_def checkInfiniteRange_def
      checkValidInputRange_def resolveExtrapolate_def strictEq_def ge_def)

section \<open>Construction: what fails and what succeeds\<close>

lemma ge_not_lt: "ge a b \<Longrightarrow> \<not> lt a b"
  by (cases a; cases b; simp add: ge_def)

lemma not_lt_ge: "a \<noteq> NaN \<Longrightarrow> b \<noteq> NaN \<Longrightarrow> \<not> lt a b \<Longrightarrow> ge a b"
  by (cases a; cases b; simp add: ge_def)

lemma checkInfiniteRange_None_iff:
  "checkInfiniteRange arr = None \<longleftrightarrow> 2 \<le> length arr \<and> arr \<noteq> [NegInf, PosInf]"
proof (cases "length arr = 2")
  case True
  then obtain a b where "arr = [a, b]"
    by (cases arr; cases "tl arr") auto
  then show ?thesis by (auto simp: checkInfiniteRange_def strictEq_def)
next
  case False
  then show ?thesis by (auto simp: checkInfiniteRange_def)
qed

lemma numeric_wellformed:
  assumes "createNumericInterpolation getValue config outRange = Inr g"
  shows "2 \<le> length (inputRange config)"
    and "length (inputRange config) = rangeLength outRange"
    and "\<not> (\<exists>i \<in> set [1 ..< length (inputRange config)].
              lt (inputRange config ! i) (inputRange config ! (i - 1)))"
    and "inputRange config \<noteq> [NegInf, PosInf]"
    and "outRange \<noteq> NumberArray [NegInf, PosInf]"
proof -
  from createNumericInterpolation_Inr(2) [OF assms]
  show "2 \<le> length (inputRange config)" "inputRange config \<noteq> [NegInf, PosInf]"
    by (simp_all add: checkInfiniteRange_None_iff)
  from createNumericInterpolation_Inr(4) [OF assms]
  show "length (inputRange config) = rangeLength outRange" .
  from createNumericInterpolation_Inr(3) [OF assms]
  have "\<forall>i \<in> set [1 ..< length (inputRange config)].
          ge (inputRange config ! i) (inputRange config ! (i - 1))"
    by (simp add: checkValidInputRange_def split: if_splits)
  then show "\<not> (\<exists>i \<in> set [1 ..< length (inputRange config)].
              lt (inputRange config ! i) (inputRange config ! (i - 1)))"
    using ge_not_lt by blast
  from createNumericInterpolation_Inr(1) [OF assms]
  show "outRange \<noteq> NumberArray [NegInf, PosInf]"
    by (auto simp: checkInfiniteRange_None_iff)
qed

lemma checkPattern_None:
  "checkPattern arr = None \<longleftrightarrow>
   (\<forall>i \<in> set [1 ..< length arr]. replaceShapeEmpty (arr ! i) = replaceShapeEmpty (arr ! 0))"
  by (simp add: checkPattern_def Let_def) (metis atLeastLessThan_iff)

lemma constructed_not_malformed:
  assumes "createInterpolation normalizeColor getValue config = Inr f"
  shows "\<not> malformed normalizeColor config"
proof (cases "outputRange config")
  case (Numeric outRange)
  with assms obtain g where g: "createNumericInterpolation getValue config outRange = Inr g"
    by (auto simp: createInterpolation_def split: sum.splits)
  from numeric_wellformed [OF g] Numeric show ?thesis
    by (simp add: malformed_def)
next
  case (Strings strs)
  show ?thesis
  proof (cases strs)
    case Nil
    with Strings assms obtain g where
      "createNumericInterpolation getValue config (NumberArray []) = Inr g"
      by (auto simp: createInterpolation_def split: sum.splits)
    from createNumericInterpolation_Inr(1) [OF this] show ?thesis
      by (simp add: checkInfiniteRange_def)
  next
    case (Cons s ss)
    with Strings assms obtain g where
      g: "createInterpolationFromStringOutputRange normalizeColor getValue config strs = Inr g"
      by (auto simp: createInterpolation_def split: sum.splits)
    note facts = stringInterpolation_Inr [OF g]
    from facts(6) have a: "2 \<le> length (inputRange config)" "inputRange config \<noteq> [NegInf, PosInf]"
      by (simp_all add: checkInfiniteRange_None_iff)
    from facts(7) have "\<forall>i \<in> set [1 ..< length (inputRange config)].
          ge (inputRange config ! i) (inputRange config ! (i - 1))"
      by (simp add: checkValidInputRange_def split: if_splits)
    then have b: "\<not> (\<exists>i \<in> set [1 ..< length (inputRange config)].
              lt (inputRange config ! i) (inputRange config ! (i - 1)))"
      using ge_not_lt by blast
    from facts(1) have "map (colorToRgba normalizeColor) strs ! 0
        = colorToRgba normalizeColor (strs ! 0)"
      by (intro nth_map) auto
    with facts(2) have c: "\<forall>i \<in> set [1 ..< length strs].
        replaceShapeEmpty (colorToRgba normalizeColor (strs ! i))
          = replaceShapeEmpty (colorToRgba normalizeColor (strs ! 0))"
      by (simp add: checkPattern_None)
    from a b c facts(5) Strings show ?thesis
      by (simp add: malformed_def)
  qed
qed

lemma numeric_constructed:
  assumes "2 \<le> length (inputRange config)"
    and "length (inputRange config) = rangeLength outRange"
    and "\<forall>i \<in> set [1 ..< length (inputRange config)].
           ge (inputRange config ! i) (inputRange config ! (i - 1))"
    and "inputRange config \<noteq> [NegInf, PosInf]"
    and "outRange \<noteq> NumberArray [NegInf, PosInf]"
  shows "\<exists>g. createNumericInterpolation getValue config outRange = Inr g"
proof -
  from assms(1,4) have 1: "checkInfiniteRange (inputRange config) = None"
    by (simp add: checkInfiniteRange_None_iff)
  from assms(1,3) have 2: "checkValidInputRange (inputRange config) = None"
    by (simp add: checkValidInputRange_def)
  from assms(1,2,5) have 3: "checkInfiniteOutputRange outRange = None"
    by (cases outRange) (simp_all add: checkInfiniteRange_None_iff)
  from 1 2 3 assms(2) show ?thesis
    by (simp add: createNumericInterpolation_def)
qed

lemma pushNumbers_ok:
  "i + length ms \<le> length ors \<Longrightarrow> \<exists>ors2. pushNumbers ors i ms = Inr ors2"
  by (induction ms arbitrary: ors i) auto

lemma collectOutputRanges_ok:
  "\<forall>v \<in> set vs. matchesIn v \<noteq> [] \<and> length (matchesIn v) \<le> length ors \<Longrightarrow>
   \<exists>ors2. collectOutputRanges ors vs = Inr ors2"
proof (induction vs arbitrary: ors)
  case Nil
  then show ?case by simp
next
  case (Cons v vs)
  then have ms: "matchShape v = Some (matchesIn v)" and le: "0 + length (matchesIn v) \<le> length ors"
    by (simp_all add: matchShape_def matchesIn_def)
  from pushNumbers_ok [OF le] obtain ors1 where p: "pushNumbers ors 0 (matchesIn v) = Inr ors1"
    by blast
  from pushNumbers_zero(1) [OF p] Cons.prems
  have "\<forall>v \<in> set vs. matchesIn v \<noteq> [] \<and> length (matchesIn v) \<le> length ors1" by simp
  from Cons.IH [OF this] ms p show ?case by simp
qed

lemma mapResult_ok:
  "\<forall>x \<in> set xs. \<exists>y. f x = Inr y \<Longrightarrow> \<exists>ys. mapResult f xs = Inr ys"
proof (induction xs)
  case Nil
  then show ?case by simp
next
  case (Cons x xs)
  then obtain y ys where "f x = Inr y" "mapResult f xs = Inr ys" by auto
  then show ?case by simp
qed

lemma columnOf_all:
  "\<forall>v \<in> set vs. j < length (matchesIn v) \<Longrightarrow> columnOf vs j = channelColumn vs j"
  by (induction vs) (simp_all add: columnOf_def channelColumn_def lookup_def)

lemma string_constructed:
  fixes strs normalizeColor
  defines "templates \<equiv> map (colorToRgba normalizeColor) strs"
  assumes two: "2 \<le> length strs"
    and len: "length (inputRange config) = length strs"
    and mono: "\<forall>i \<in> set [1 ..< length (inputRange config)].
           ge (inputRange config ! i) (inputRange config ! (i - 1))"
    and inf: "inputRange config \<noteq> [NegInf, PosInf]"
    and pat: "checkPattern templates = None"
    and n: "0 < n" "\<forall>t \<in> set templates. length (matchesIn t) = n"
    and fin: "\<forall>j < n. channelColumn templates j \<noteq> [NegInf, PosInf]"
  shows "\<exists>f. createInterpolationFromStringOutputRange normalizeColor getValue config strs = Inr f"
proof -
  from two have "0 < length templates" by (auto simp: templates_def)
  then have t0: "templates ! 0 \<in> set templates" by (rule nth_mem)
  with n have ms0: "matchShape (templates ! 0) = Some (matchesIn (templates ! 0))"
    and n0: "length (matchesIn (templates ! 0)) = n"
    by (auto simp: matchShape_def matchesIn_def)
  from n n0 have "\<forall>v \<in> set templates. matchesIn v \<noteq> []
      \<and> length (matchesIn v) \<le> length (map (\<lambda>m. []) (matchesIn (templates ! 0)) :: number list list)"
    by auto
  from collectOutputRanges_ok [OF this] obtain ors where
    coll: "collectOutputRanges (map (\<lambda>m. []) (matchesIn (templates ! 0))) templates = Inr ors"
    by blast
  from collectOutputRanges_nth [OF coll] n0
  have lors: "length ors = n" and cols: "\<forall>j < n. ors ! j = columnOf templates j"
    by simp_all
  have "\<forall>column \<in> set ors. \<exists>g. createNumericInterpolation getValue config (NumberArray column) = Inr g"
  proof
    fix column assume "column \<in> set ors"
    then obtain j where j: "j < n" and c: "column = ors ! j"
      using lors by (auto simp: in_set_conv_nth)
    from n j have "\<forall>v \<in> set templates. j < length (matchesIn v)" by simp
    from columnOf_all [OF this] cols j c have col: "column = channelColumn templates j" by simp
    then have cl: "length column = length strs" by (simp add: channelColumn_def templates_def)
    from fin j col have "column \<noteq> [NegInf, PosInf]" by simp
    with two len mono inf cl
    show "\<exists>g. createNumericInterpolation getValue config (NumberArray column) = Inr g"
      by (intro numeric_constructed) simp_all
  qed
  from mapResult_ok [OF this] obtain interps where
    "mapResult (\<lambda>column. createNumericInterpolation getValue config (NumberArray column)) ors
       = Inr interps" by blast
  with two pat ms0 coll show ?thesis
    unfolding createInterpolationFromStringOutputRange_def Let_def templates_def [symmetric]
    by simp
qed


section \<open>The colour example, step by step\<close>

lemma transparent_normalized:
  assumes "normalizeColor ''rgba(0,0,0,0)'' = Some 0"
  shows "colorToRgba normalizeColor ''rgba(0,0,0,0)'' = ''rgba(0, 0, 0, 0)''"
  using assms by (simp add: colorToRgba_def string_eval)

lemma white_normalized:
  assumes "normalizeColor ''rgba(255,255,255,1)'' = Some 0xffffffff"
  shows "colorToRgba normalizeColor ''rgba(255,255,255,1)'' = ''rgba(255, 255, 255, 1)''"
  using assms by (simp add: colorToRgba_def string_eval)

lemma transparent_pieces: "pieces ''rgba(0, 0, 0, 0)'' =
  [Literal CHR ''r'', Literal CHR ''g'', Literal CHR ''b'', Literal CHR ''a'', Literal CHR ''('',
   Match ''0'', Literal CHR '','', Literal CHR '' '', Match ''0'', Literal CHR '','', Literal CHR '' '',
   Match ''0'', Literal CHR '','', Literal CHR '' '', Match ''0'', Literal CHR '')'']"
  by (simp add: string_eval)

lemma white_pieces: "pieces ''rgba(255, 255, 255, 1)'' =
  [Literal CHR ''r'', Literal CHR ''g'', Literal CHR ''b'', Literal CHR ''a'', Literal CHR ''('',
   Match ''255'', Literal CHR '','', Literal CHR '' '', Match ''255'', Literal CHR '','', Literal CHR '' '',
   Match ''255'', Literal CHR '','', Literal CHR '' '', Match ''1'', Literal CHR '')'']"
  by (simp add: string_eval)

lemma token_numbers: "toNumber ''0'' = Fin 0" "toNumber ''255'' = Fin 255" "toNumber ''1'' = Fin 1"
  by (simp_all add: string_eval)

lemma printed_numbers: "numberToString (Fin 128) = ''128''" "numberToString (Fin (1 / 2)) = ''0.5''"
  "numberToString (Fin (- 1.125)) = ''-1.125''" "numberToString (Fin 0) = ''0''"
  by (simp_all add: string_eval)


section \<open>Configuration errors\<close>

lemma not_malformed_numeric:
  assumes nm: "\<not> malformed normalizeColor config" and nan: "NaN \<notin> set (inputRange config)"
  shows "2 \<le> length (inputRange config)"
    and "length (inputRange config) = outputLength (outputRange config)"
    and "\<forall>i \<in> set [1 ..< length (inputRange config)].
           ge (inputRange config ! i) (inputRange config ! (i - 1))"
    and "inputRange config \<noteq> [NegInf, PosInf]"
    and "outputRange config \<noteq> Numeric (NumberArray [NegInf, PosInf])"
proof -
  from nm show "2 \<le> length (inputRange config)"
    "length (inputRange config) = outputLength (outputRange config)"
    "inputRange config \<noteq> [NegInf, PosInf]"
    "outputRange config \<noteq> Numeric (NumberArray [NegInf, PosInf])"
    by (auto simp: malformed_def)
  show "\<forall>i \<in> set [1 ..< length (inputRange config)].
           ge (inputRange config ! i) (inputRange config ! (i - 1))"
  proof
    fix i assume i: "i \<in> set [1 ..< length (inputRange config)]"
    with nm have "\<not> lt (inputRange config ! i) (inputRange config ! (i - 1))"
      by (auto simp: malformed_def)
    moreover from i nan have "inputRange config ! i \<noteq> NaN" "inputRange config ! (i - 1) \<noteq> NaN"
      by (auto simp: in_set_conv_nth)
    ultimately show "ge (inputRange config ! i) (inputRange config ! (i - 1))"
      by (intro not_lt_ge)
  qed
qed

lemma wellformed_constructed:
  assumes nm: "\<not> malformed normalizeColor config" and nan: "NaN \<notin> set (inputRange config)"
    and toks: "\<forall>strs. outputRange config = Strings strs \<longrightarrow>
        (\<exists>n>0. (\<forall>s \<in> set strs. length (matchesIn (colorToRgba normalizeColor s)) = n)
           \<and> (\<forall>j < n. channelColumn (map (colorToRgba normalizeColor) strs) j
                         \<noteq> [NegInf, PosInf]))"
  shows "\<exists>f. createInterpolation normalizeColor getValue config = Inr f"
proof (cases "outputRange config")
  case (Numeric outRange)
  from not_malformed_numeric [OF nm nan] Numeric
  have "\<exists>g. createNumericInterpolation getValue config outRange = Inr g"
    by (intro numeric_constructed) simp_all
  with Numeric show ?thesis by (auto simp: createInterpolation_def)
next
  case (Strings strs)
  note wf = not_malformed_numeric [OF nm nan]
  from wf(1,2) Strings have two: "2 \<le> length strs" and len: "length (inputRange config) = length strs"
    by simp_all
  then obtain s ss where cons: "strs = s # ss" by (cases strs) auto
  from toks Strings obtain n where n: "0 < n"
    "\<forall>t \<in> set (map (colorToRgba normalizeColor) strs). length (matchesIn t) = n"
    "\<forall>j < n. channelColumn (map (colorToRgba normalizeColor) strs) j \<noteq> [NegInf, PosInf]"
    by auto
  from two have "map (colorToRgba normalizeColor) strs ! 0 = colorToRgba normalizeColor (strs ! 0)"
    by (intro nth_map) auto
  with nm Strings have pat: "checkPattern (map (colorToRgba normalizeColor) strs) = None"
    by (simp add: checkPattern_None malformed_def)
  from string_constructed [OF two len wf(3) wf(4) pat n]
  obtain g where "createInterpolationFromStringOutputRange normalizeColor getValue config strs = Inr g"
    by blast
  with Strings cons show ?thesis by (simp add: createInterpolation_def)
qed

lemma tokenless_strings_fail:
  "\<not> malformed (\<lambda>s. None)
       \<lparr>inputRange = [Fin 0, Fin 1], outputRange = Strings [''a'', ''a''] :: unit outputRangeType,
        easing = None, extrapolate = None, extrapolateLeft = None, extrapolateRight = None\<rparr>
   \<and> createInterpolation (\<lambda>s. None) (\<lambda>n :: unit. NaN)
       \<lparr>inputRange = [Fin 0, Fin 1], outputRange = Strings [''a'', ''a''],
        easing = None, extrapolate = None, extrapolateLeft = None, extrapolateRight = None\<rparr>
     = Inl TypeError"
  by (simp add: malformed_def createInterpolation_def createInterpolationFromStringOutputRange_def
      createNumericInterpolation_def checkInfiniteRange_def checkValidInputRange_def
      colorToRgba_def string_eval strictEq_def ge_def)

lemma nan_input_range_fails:
  "\<not> malformed (\<lambda>s. None)
       \<lparr>inputRange = [Fin 0, NaN], outputRange = Numeric (NumberArray [Fin 0, Fin 1]) :: unit outputRangeType,
        easing = None, extrapolate = None, extrapolateLeft = None, extrapolateRight = None\<rparr>
   \<and> createInterpolation (\<lambda>s. None) (\<lambda>n :: unit. NaN)
       \<lparr>inputRange = [Fin 0, NaN], outputRange = Numeric (NumberArray [Fin 0, Fin 1]),
        easing = None, extrapolate = None, extrapolateLeft = None, extrapolateRight = None\<rparr>
     = Inl NotMonotonic"
  by (simp add: malformed_def createInterpolation_def createInterpolationFromStringOutputRange_def
      createNumericInterpolation_def checkInfiniteRange_def checkValidInputRange_def
      colorToRgba_def string_eval strictEq_def ge_def)

lemma token_counts_differ_fails:
  "\<not> malformed (\<lambda>s. None)
       \<lparr>inputRange = [Fin 0, Fin 1], outputRange = Strings [''1px2'', ''12px''] :: unit outputRangeType,
        easing = None, extrapolate = None, extrapolateLeft = None, extrapolateRight = None\<rparr>
   \<and> createInterpolation (\<lambda>s. None) (\<lambda>n :: unit. NaN)
       \<lparr>inputRange = [Fin 0, Fin 1], outputRange = Strings [''1px2'', ''12px''],
        easing = None, extrapolate = None, extrapolateLeft = None, extrapolateRight = None\<rparr>
     = Inl RangeTooShort"
  by (simp add: malformed_def createInterpolation_def createInterpolationFromStringOutputRange_def
      createNumericInterpolation_def checkInfiniteRange_def checkValidInputRange_def
      colorToRgba_def string_eval strictEq_def ge_def)

lemma huge_tokens: "toNumber hugeToken = PosInf" "toNumber minusHugeToken = NegInf"
  by (simp_all add: string_eval)

lemma huge_pieces:
  "pieces minusHugePx = [Match minusHugeToken, Literal CHR ''p'', Literal CHR ''x'']"
  "pieces hugePx = [Match hugeToken, Literal CHR ''p'', Literal CHR ''x'']"
  by (simp_all add: pieces.simps isShapeChar_def)

lemma infinite_channel_fails:
  "\<not> malformed (\<lambda>s. None)
       \<lparr>inputRange = [Fin 0, Fin 1], outputRange = Strings [minusHugePx, hugePx] :: unit outputRangeType,
        easing = None, extrapolate = None, extrapolateLeft = None, extrapolateRight = None\<rparr>
   \<and> createInterpolation (\<lambda>s. None) (\<lambda>n :: unit. NaN)
       \<lparr>inputRange = [Fin 0, Fin 1], outputRange = Strings [minusHugePx, hugePx],
        easing = None, extrapolate = None, extrapolateLeft = None, extrapolateRight = None\<rparr>
     = Inl InfiniteRange"
  by (simp add: malformed_def createInterpolation_def createInterpolationFromStringOutputRange_def
      createNumericInterpolation_def checkInfiniteRange_def colorToRgba_def matchShape_def
      replaceShapeEmpty_def checkPattern_def huge_pieces huge_tokens strictEq_def)

text \<open>
  C5, its converse as it is worded ("construction succeeds on every configuration
  satisfying all these conditions"). None of these four has a listed defect, and
  the construction of each throws: \<open>outputRange = ["a", "a"]\<close>, where
  \<open>outputRange[0].match(stringShapeRegex)\<close> is \<open>null\<close>; \<open>inputRange = [0, NaN]\<close>, which
  decreases nowhere and fails \<open>arr[i] >= arr[i - 1]\<close>; \<open>outputRange = ["1px2", "12px"]\<close>,
  one skeleton and a second channel of one number; and the entries \<open>-10^309\<close> and
  \<open>10^309\<close> followed by \<open>px\<close>, whose channel reads as \<open>[-Infinity, Infinity]\<close>.
\<close>

theorem construction_converse_counterexample:
  "(\<not> malformed (\<lambda>s. None)
       \<lparr>inputRange = [Fin 0, Fin 1], outputRange = Strings [''a'', ''a''] :: unit outputRangeType,
        easing = None, extrapolate = None, extrapolateLeft = None, extrapolateRight = None\<rparr>
   \<and> createInterpolation (\<lambda>s. None) (\<lambda>n :: unit. NaN)
       \<lparr>inputRange = [Fin 0, Fin 1], outputRange = Strings [''a'', ''a''],
        easing = None, extrapolate = None, extrapolateLeft = None, extrapolateRight = None\<rparr>
     = Inl TypeError)
   \<and> (\<not> malformed (\<lambda>s. None)
       \<lparr>inputRange = [Fin 0, NaN], outputRange = Numeric (NumberArray [Fin 0, Fin 1]) :: unit outputRangeType,
        easing = None, extrapolate = None, extrapolateLeft = None, extrapolateRight = None\<rparr>
   \<and> createInterpolation (\<lambda>s. None) (\<lambda>n :: unit. NaN)
       \<lparr>inputRange = [Fin 0, NaN], outputRange = Numeric (NumberArray [Fin 0, Fin 1]),
        easing = None, extrapolate = None, extrapolateLeft = None, extrapolateRight = None\<rparr>
     = Inl NotMonotonic)
   \<and> (\<not> malformed (\<lambda>s. None)
       \<lparr>inputRange = [Fin 0, Fin 1], outputRange = Strings [''1px2'', ''12px''] :: unit outputRangeType,
        easing = None, extrapolate = None, extrapolateLeft = None, extrapolateRight = None\<rparr>
   \<and> createInterpolation (\<lambda>s. None) (\<lambda>n :: unit. NaN)
       \<lparr>inputRange = [Fin 0, Fin 1], outputRange = Strings [''1px2'', ''12px''],
        easing = None, extrapolate = None, extrapolateLeft = None, extrapolateRight = None\<rparr>
     = Inl RangeTooShort)
   \<and> (\<not> malformed (\<lambda>s. None)
       \<lparr>inputRange = [Fin 0, Fin 1], outputRange = Strings [minusHugePx, hugePx] :: unit outputRangeType,
        easing = None, extrapolate = None, extrapolateLeft = None, extrapolateRight = None\<rparr>
   \<and> createInterpolation (\<lambda>s. None) (\<lambda>n :: unit. NaN)
       \<lparr>inputRange = [Fin 0, Fin 1], outputRange = Strings [minusHugePx, hugePx],
        easing = None, extrapolate = None, extrapolateLeft = None, extrapolateRight = None\<rparr>
     = Inl InfiniteRange)"
  using tokenless_strings_fail nan_input_range_fails token_counts_differ_fails
    infinite_channel_fails
  by blast

text \<open>
  C5, amended. Every configuration with one of the listed defects (an input range
  shorter than two, ranges of different lengths, an input range that decreases
  somewhere, an input range or numeric output range that is exactly
  \<open>[-Infinity, Infinity]\<close>, templates with different skeletons after the colour
  normalizer) fails when the mapper is constructed, so that no mapper exists to
  fail later. Conversely, construction succeeds on every configuration without
  such a defect whose input range has no \<open>NaN\<close> and whose output range is numeric,
  node-valued, or made of strings whose templates all have the same positive
  number of numeric tokens and none of whose channels is \<open>[-Infinity, Infinity]\<close>.
  \<open>["1px", "2deg"]\<close> fails with the pattern error.
\<close>

theorem construction_errors:
  "(malformed normalizeColor config \<longrightarrow>
      (\<exists>e. createInterpolation normalizeColor getValue config = Inl e))
   \<and> (\<not> malformed normalizeColor config \<and> NaN \<notin> set (inputRange config)
        \<and> (\<forall>strs. outputRange config = Strings strs \<longrightarrow>
              (\<exists>n>0. (\<forall>s \<in> set strs. length (matchesIn (colorToRgba normalizeColor s)) = n)
                 \<and> (\<forall>j < n. channelColumn (map (colorToRgba normalizeColor) strs) j
                               \<noteq> [NegInf, PosInf])))
      \<longrightarrow> (\<exists>f. createInterpolation normalizeColor getValue config = Inr f))
   \<and> (normalizeColor ''1px'' = None \<and> normalizeColor ''2deg'' = None \<longrightarrow>
        createInterpolation normalizeColor getValue
          \<lparr>inputRange = [Fin 0, Fin 1], outputRange = Strings [''1px'', ''2deg''],
           easing = None, extrapolate = None, extrapolateLeft = None, extrapolateRight = None\<rparr>
        = Inl InvalidPattern)"
proof (intro conjI impI)
  assume m: "malformed normalizeColor config"
  show "\<exists>e. createInterpolation normalizeColor getValue config = Inl e"
  proof (cases "createInterpolation normalizeColor getValue config")
    case (Inl e)
    then show ?thesis by blast
  next
    case (Inr f)
    from constructed_not_malformed [OF this] m show ?thesis by simp
  qed
next
  assume "\<not> malformed normalizeColor config \<and> NaN \<notin> set (inputRange config)
        \<and> (\<forall>strs. outputRange config = Strings strs \<longrightarrow>
              (\<exists>n>0. (\<forall>s \<in> set strs. length (matchesIn (colorToRgba normalizeColor s)) = n)
                 \<and> (\<forall>j < n. channelColumn (map (colorToRgba normalizeColor) strs) j
                               \<noteq> [NegInf, PosInf])))"
  then show "\<exists>f. createInterpolation normalizeColor getValue config = Inr f"
    by (intro wellformed_constructed) simp_all
next
  assume "normalizeColor ''1px'' = None \<and> normalizeColor ''2deg'' = None"
  then show "createInterpolation normalizeColor getValue
          \<lparr>inputRange = [Fin 0, Fin 1], outputRange = Strings [''1px'', ''2deg''],
           easing = None, extrapolate = None, extrapolateLeft = None, extrapolateRight = None\<rparr>
        = Inl InvalidPattern"
    by (simp add: createInterpolation_def createInterpolationFromStringOutputRange_def
      colorToRgba_def string_eval)
qed

theorem construction_errors_witness:
  "malformed (\<lambda>s. None)
       \<lparr>inputRange = [Fin 1, Fin 0], outputRange = Numeric (NumberArray [Fin 0, Fin 1] :: unit numericRange),
        easing = None, extrapolate = None, extrapolateLeft = None, extrapolateRight = None\<rparr>
   \<and> (\<exists>e. createInterpolation (\<lambda>s. None) (\<lambda>n :: unit. NaN)
       \<lparr>inputRange = [Fin 1, Fin 0], outputRange = Numeric (NumberArray [Fin 0, Fin 1]),
        easing = None, extrapolate = None, extrapolateLeft = None, extrapolateRight = None\<rparr> = Inl e)
   \<and> \<not> malformed (\<lambda>s. None)
       \<lparr>inputRange = [Fin 0, Fin 1], outputRange = Strings [''0deg'', ''90deg''] :: unit outputRangeType,
        easing = None, extrapolate = None, extrapolateLeft = None, extrapolateRight = None\<rparr>
   \<and> NaN \<notin> set [Fin 0, Fin 1]
   \<and> (\<exists>f. createInterpolation (\<lambda>s. None) (\<lambda>n :: unit. NaN)
       \<lparr>inputRange = [Fin 0, Fin 1], outputRange = Strings [''0deg'', ''90deg''],
        easing = None, extrapolate = None, extrapolateLeft = None, extrapolateRight = None\<rparr> = Inr f)
   \<and> createInterpolation (\<lambda>s. None) (\<lambda>n :: unit. NaN)
          \<lparr>inputRange = [Fin 0, Fin 1], outputRange = Strings [''1px'', ''2deg''],
           easing = None, extrapolate = None, extrapolateLeft = None, extrapolateRight = None\<rparr>
        = Inl InvalidPattern"
  using construction_errors [where normalizeColor = "\<lambda>s. None" and getValue = "\<lambda>n :: unit. NaN"
      and config = "\<lparr>inputRange = [Fin 1, Fin 0], outputRange = Numeric (NumberArray [Fin 0, Fin 1]),
        easing = None, extrapolate = None, extrapolateLeft = None, extrapolateRight = None\<rparr>"]
    construction_errors [where normalizeColor = "\<lambda>s. None" and getValue = "\<lambda>n :: unit. NaN"
      and config = "\<lparr>inputRange = [Fin 0, Fin 1], outputRange = Strings [''0deg'', ''90deg''],
        easing = None, extrapolate = None, extrapolateLeft = None, extrapolateRight = None\<rparr>"]
  by (simp add: malformed_def colorToRgba_def string_eval channelColumn_def)


section \<open>Evaluation of a string output range\<close>

lemma string_value:
  assumes "outputRange config = Strings strs"
    and "createInterpolation normalizeColor getValue config = Inr f"
  shows "f (VNum x) = Inr (VStr (patternValue config (map (colorToRgba normalizeColor) strs) x))"
proof (cases strs)
  case Nil
  with assms obtain g where
    "createNumericInterpolation getValue config (NumberArray []) = Inr g"
    by (auto simp: createInterpolation_def split: sum.splits)
  from createNumericInterpolation_Inr(1) [OF this] show ?thesis
    by (simp add: checkInfiniteRange_def)
next
  case (Cons s ss)
  with assms obtain g where
    g: "createInterpolationFromStringOutputRange normalizeColor getValue config strs = Inr g"
    and f: "f = (\<lambda>input. case g input of Inl e \<Rightarrow> Inl e | Inr r \<Rightarrow> Inr (VStr r))"
    by (auto simp: createInterpolation_def split: sum.splits)
  from stringMapper_value [OF g, of x] f show ?thesis by simp
qed

lemma four_channels: "[0 ..< 4] = [0, Suc 0, Suc (Suc 0), Suc (Suc (Suc 0))]"
  by (simp add: upt_conv_Cons)
lemma rgba_columns: "channelColumn [''rgba(0, 0, 0, 0)'', ''rgba(255, 255, 255, 1)''] 0 = [Fin 0, Fin 255]"
  "channelColumn [''rgba(0, 0, 0, 0)'', ''rgba(255, 255, 255, 1)''] (Suc 0) = [Fin 0, Fin 255]"
  "channelColumn [''rgba(0, 0, 0, 0)'', ''rgba(255, 255, 255, 1)''] (Suc (Suc 0)) = [Fin 0, Fin 255]"
  "channelColumn [''rgba(0, 0, 0, 0)'', ''rgba(255, 255, 255, 1)''] (Suc (Suc (Suc 0))) = [Fin 0, Fin 1]"
  by (simp_all add: channelColumn_def matchesIn_def transparent_pieces white_pieces token_numbers)
lemma rgba_channel_values: "rangeMap
     \<lparr>inputRange = [Fin 0, Fin 1], outputRange = r,
       easing = None, extrapolate = None, extrapolateLeft = None, extrapolateRight = None\<rparr>
     [Fin 0, Fin 255] (Fin (1 / 2)) = Fin (255 / 2)"
  "rangeMap
     \<lparr>inputRange = [Fin 0, Fin 1], outputRange = r,
       easing = None, extrapolate = None, extrapolateLeft = None, extrapolateRight = None\<rparr>
     [Fin 0, Fin 1] (Fin (1 / 2)) = Fin (1 / 2)"
  by (simp_all add: rangeMap_def findRange_def findRange_loop.simps ge_def
      interpolate_def extrapolateStep_def mapSegment_def strictEq_def gt_def sub_def
      linear_easing_def resolveExtrapolate_def)
lemma rgba_formatted: "formatValue True 0 (Fin (255 / 2)) = ''128''"
  "formatValue True (Suc 0) (Fin (255 / 2)) = ''128''"
  "formatValue True (Suc (Suc 0)) (Fin (255 / 2)) = ''128''"
  "formatValue True (Suc (Suc (Suc 0))) (Fin (1 / 2)) = ''0.5''"
  by (simp_all add: formatValue_def printed_numbers)

lemma rgba_pattern_value:
  "patternValue
     \<lparr>inputRange = [Fin 0, Fin 1], outputRange = r,
       easing = None, extrapolate = None, extrapolateLeft = None, extrapolateRight = None\<rparr>
     [''rgba(0, 0, 0, 0)'', ''rgba(255, 255, 255, 1)''] (Fin (1 / 2))
   = ''rgba(128, 128, 128, 0.5)''"
  by (simp add: patternValue_def Let_def matchesIn_def transparent_pieces four_channels isRgbOrRgba_def rgba_columns
      rgba_channel_values rgba_formatted)

lemma rgba_constructed:
  assumes "normalizeColor ''rgba(0,0,0,0)'' = Some 0"
    and "normalizeColor ''rgba(255,255,255,1)'' = Some 0xffffffff"
  shows "\<exists>g. createInterpolationFromStringOutputRange normalizeColor getValue
     \<lparr>inputRange = [Fin 0, Fin 1],
       outputRange = r,
       easing = None, extrapolate = None, extrapolateLeft = None, extrapolateRight = None\<rparr>
     [''rgba(0,0,0,0)'', ''rgba(255,255,255,1)''] = Inr g"
proof (rule string_constructed [where n = 4])
  show "checkPattern (map (colorToRgba normalizeColor) [''rgba(0,0,0,0)'', ''rgba(255,255,255,1)'']) = None"
    using assms by (simp add: transparent_normalized white_normalized checkPattern_def replaceShapeEmpty_def transparent_pieces white_pieces)
  show "\<forall>t \<in> set (map (colorToRgba normalizeColor) [''rgba(0,0,0,0)'', ''rgba(255,255,255,1)'']).
          length (matchesIn t) = 4"
    using assms by (simp add: transparent_normalized white_normalized matchesIn_def transparent_pieces white_pieces)
  show "\<forall>j < 4. channelColumn
          (map (colorToRgba normalizeColor) [''rgba(0,0,0,0)'', ''rgba(255,255,255,1)'']) j
        \<noteq> [NegInf, PosInf]"
  proof (intro allI impI)
    fix j :: nat
    assume "j < 4"
    then consider "j = 0" | "j = Suc 0" | "j = Suc (Suc 0)" | "j = Suc (Suc (Suc 0))"
      by linarith
    then show "channelColumn
          (map (colorToRgba normalizeColor) [''rgba(0,0,0,0)'', ''rgba(255,255,255,1)'']) j
        \<noteq> [NegInf, PosInf]"
      using assms
      by cases (simp_all add: transparent_normalized white_normalized rgba_columns)
  qed
qed (simp_all add: ge_def)

text \<open>
  C6. The mapper of a string output range returns, on every number, the first
  template (after the colour normalizer) with its numeric tokens replaced from
  left to right by the values of their channels, each the Range Mapper's value on
  the channel's sequence, rounded to an integer for the first three channels of a
  template that starts with \<open>rgb\<close> and to three decimal places otherwise. For
  \<open>["rgba(0,0,0,0)", "rgba(255,255,255,1)"]\<close> over \<open>[0, 1]\<close>, with a normalizer that
  packs the two colours as \<open>0x00000000\<close> and \<open>0xffffffff\<close>, the value at \<open>0.5\<close> is
  \<open>"rgba(128, 128, 128, 0.5)"\<close>.
\<close>

theorem string_pattern_evaluation:
  "(outputRange config = Strings strs \<and> createInterpolation normalizeColor getValue config = Inr f
      \<longrightarrow> f (VNum x) = Inr (VStr (patternValue config (map (colorToRgba normalizeColor) strs) x)))
   \<and> (normalizeColor ''rgba(0,0,0,0)'' = Some 0
        \<and> normalizeColor ''rgba(255,255,255,1)'' = Some 0xffffffff \<longrightarrow>
        interpolationValue normalizeColor getValue
          \<lparr>inputRange = [Fin 0, Fin 1],
           outputRange = Strings [''rgba(0,0,0,0)'', ''rgba(255,255,255,1)''],
           easing = None, extrapolate = None, extrapolateLeft = None, extrapolateRight = None\<rparr>
          (VNum (Fin (1 / 2)))
        = Inr (VStr ''rgba(128, 128, 128, 0.5)''))"
proof (intro conjI impI)
  assume "outputRange config = Strings strs \<and> createInterpolation normalizeColor getValue config = Inr f"
  then show "f (VNum x) = Inr (VStr (patternValue config (map (colorToRgba normalizeColor) strs) x))"
    using string_value by blast
next
  let ?config = "\<lparr>inputRange = [Fin 0, Fin 1],
           outputRange = Strings [''rgba(0,0,0,0)'', ''rgba(255,255,255,1)''],
           easing = None, extrapolate = None, extrapolateLeft = None, extrapolateRight = None\<rparr>"
  assume nc: "normalizeColor ''rgba(0,0,0,0)'' = Some 0
        \<and> normalizeColor ''rgba(255,255,255,1)'' = Some 0xffffffff"
  then obtain g where g: "createInterpolationFromStringOutputRange normalizeColor getValue ?config
     [''rgba(0,0,0,0)'', ''rgba(255,255,255,1)''] = Inr g"
    using rgba_constructed by blast
  from stringMapper_value [OF g, of "Fin (1 / 2)"] nc
  have "g (VNum (Fin (1 / 2))) = Inr ''rgba(128, 128, 128, 0.5)''"
    by (simp add: transparent_normalized white_normalized rgba_pattern_value)
  with g show "interpolationValue normalizeColor getValue ?config (VNum (Fin (1 / 2)))
        = Inr (VStr ''rgba(128, 128, 128, 0.5)'')"
    by (simp add: interpolationValue_def createInterpolation_def)
qed


theorem string_pattern_evaluation_witness:
  "(\<lambda>s. if s = ''rgba(0,0,0,0)'' then Some 0
         else if s = ''rgba(255,255,255,1)'' then Some 0xffffffff else None) ''rgba(0,0,0,0)''
     = Some (0 :: 32 word)
   \<and> interpolationValue
        (\<lambda>s. if s = ''rgba(0,0,0,0)'' then Some 0
              else if s = ''rgba(255,255,255,1)'' then Some 0xffffffff else None)
        (\<lambda>n :: unit. NaN)
        \<lparr>inputRange = [Fin 0, Fin 1],
         outputRange = Strings [''rgba(0,0,0,0)'', ''rgba(255,255,255,1)''],
         easing = None, extrapolate = None, extrapolateLeft = None, extrapolateRight = None\<rparr>
        (VNum (Fin (1 / 2)))
      = Inr (VStr ''rgba(128, 128, 128, 0.5)'')
   \<and> createInterpolation (\<lambda>s. None) (\<lambda>n :: unit. NaN)
        \<lparr>inputRange = [Fin 0, Fin 1], outputRange = Strings [''0deg'', ''90deg''],
         easing = None, extrapolate = None, extrapolateLeft = None, extrapolateRight = None\<rparr>
      = Inr (\<lambda>input. case stringMapper ''0deg''
                            [numericMapper (\<lambda>n :: unit. NaN) [Fin 0, Fin 1] (NumberArray [Fin 0, Fin 90])
                               linear_easing ''extend'' ''extend''] False input of
                     Inl e \<Rightarrow> Inl e | Inr r \<Rightarrow> Inr (VStr r))
   \<and> (case stringMapper ''0deg''
               [numericMapper (\<lambda>n :: unit. NaN) [Fin 0, Fin 1] (NumberArray [Fin 0, Fin 90])
                  linear_easing ''extend'' ''extend''] False (VNum (Fin (1 / 2))) of
          Inl e \<Rightarrow> Inl e | Inr r \<Rightarrow> Inr (VStr r)) = Inr (VStr ''45deg'')"
  using string_pattern_evaluation [where
      normalizeColor = "\<lambda>s. if s = ''rgba(0,0,0,0)'' then Some 0
              else if s = ''rgba(255,255,255,1)'' then Some 0xffffffff else None"
      and getValue = "\<lambda>n :: unit. NaN", THEN conjunct2]
    string_pattern_evaluation [where normalizeColor = "\<lambda>s. None" and getValue = "\<lambda>n :: unit. NaN"
      and config = "\<lparr>inputRange = [Fin 0, Fin 1], outputRange = Strings [''0deg'', ''90deg''],
         easing = None, extrapolate = None, extrapolateLeft = None, extrapolateRight = None\<rparr>"
      and strs = "[''0deg'', ''90deg'']" and x = "Fin (1 / 2)"
      and f = "\<lambda>input. case stringMapper ''0deg''
                            [numericMapper (\<lambda>n :: unit. NaN) [Fin 0, Fin 1] (NumberArray [Fin 0, Fin 90])
                               linear_easing ''extend'' ''extend''] False input of
                     Inl e \<Rightarrow> Inl e | Inr r \<Rightarrow> Inr (VStr r)", THEN conjunct1]
  by (simp add: createInterpolation_def createInterpolationFromStringOutputRange_def
      createNumericInterpolation_def checkInfiniteRange_def checkValidInputRange_def
      resolveExtrapolate_def colorToRgba_def string_eval strictEq_def ge_def
      patternValue_def Let_def channelColumn_def rangeMap_def formatValue_def upt_conv_Cons
      findRange_def findRange_loop.simps interpolate_def extrapolateStep_def mapSegment_def
      gt_def sub_def linear_easing_def)


end
